theory Spec2Isabelle
  imports Complex_Main
begin

section \<open>Numbers\<close>

text \<open>
  TypeScript's \<open>number\<close> is modelled in two ways, by where a value comes from.

  \<^item> A number decoded from the server's JSON (\<open>current_price\<close>, \<open>anchor_price\<close>, the
    product's \<open>anchor_price\<close>) is a \<^typ>\<open>real\<close>: the arithmetic of the components is
    idealised (no rounding, no overflow), and \<open>NaN\<close> is not a value of the wire format.
    Counters (\<open>round\<close>, \<open>max_rounds\<close>, \<open>quote_ttl_seconds\<close>) are \<^typ>\<open>int\<close>.
  \<^item> A number produced from what the buyer typed (\<open>parseFloat\<close> in \<open>PriceInput\<close>) or
    handed to \<open>sendOffer\<close> is a \<open>jsnum\<close>: the source itself tests such a value with
    \<open>isNaN\<close>, so the special values are part of the model.
\<close>

datatype jsnum = Fin real | PosInfinity | NegInfinity | NaN

text \<open>\<open>isNaN(x)\<close> for a value that already is a number.\<close>

fun isNaN :: "jsnum \<Rightarrow> bool" where
  "isNaN NaN = True"
| "isNaN _ = False"

text \<open>\<open>x <= 0\<close>: every comparison with \<open>NaN\<close> is false.\<close>

fun le_zero :: "jsnum \<Rightarrow> bool" where
  "le_zero (Fin r) = (r \<le> 0)"
| "le_zero NegInfinity = True"
| "le_zero PosInfinity = False"
| "le_zero NaN = False"

fun isFinite :: "jsnum \<Rightarrow> bool" where
  "isFinite (Fin r) = True"
| "isFinite _ = False"


section \<open>\<open>types/index.ts\<close>\<close>

datatype NegotiationState = Idle | Proposing | Responding | Agreed | Broken | Timed_out

text \<open>
  The fields of a response keep their names, except \<open>state\<close>, \<open>tactic\<close>, \<open>round\<close> and
  \<open>metadata\<close>, which the store or a chat message also has: here they are \<open>res_state\<close>,
  \<open>res_tactic\<close>, \<open>res_round\<close> and \<open>res_metadata\<close>. The values of \<open>metadata\<close> are kept
  as text.
\<close>

type_synonym metadata = "(string \<times> string) list"

record NegotiationResponse =
  session_id :: string
  session_token :: string
  message :: string
  current_price :: real
  anchor_price :: real
  res_state :: NegotiationState
  res_tactic :: string
  sentiment :: string
  res_round :: int
  max_rounds :: int
  quote_ttl_seconds :: int
  agreed_price :: "real option"
  res_metadata :: metadata

datatype actor = Buyer | Seller

datatype msg_status = Sending | Sent | Error

text \<open>
  The text of a chat message is either a string the program holds, or the rupee sign
  followed by \<open>price.toLocaleString("en-IN")\<close>; the locale formatting is kept symbolic.
  The fields of a chat message carry the prefix \<open>msg_\<close>; its \<open>timestamp\<close> is a number.
\<close>

datatype msg_text = Text string | RupeeLocaleString jsnum

record ChatMessage =
  msg_id :: string
  msg_actor :: actor
  msg_text :: msg_text
  msg_price :: jsnum
  msg_tactic :: "string option"
  msg_metadata :: "metadata option"
  msg_timestamp :: nat
  msg_status :: msg_status


section \<open>\<open>stores/negotiation.ts\<close>: the store\<close>

text \<open>
  The data of the store. Its fields \<open>round\<close> and \<open>tactic\<close> are \<open>round_no\<close> and
  \<open>tactic_tag\<close> here; \<open>language\<close> is the string the store holds at run time (the cast in
  \<open>getPersistedLanguage\<close> is not checked).
\<close>

record NegotiationStore =
  sessionId :: "string option"
  sessionToken :: "string option"
  productId :: "string option"
  productName :: string
  anchorPrice :: real
  currentPrice :: real
  agreedPrice :: "real option"
  state :: "NegotiationState option"
  tactic_tag :: string
  round_no :: int
  maxRounds :: int
  messages :: "ChatMessage list"
  isLoading :: bool
  language :: string
  flounceUsed :: bool
  drawerOpen :: bool


section \<open>\<open>FairnessMeter.tsx\<close>\<close>

record zone =
  zone_label :: string
  zone_color :: string
  zone_from :: real
  zone_to :: real

definition ZONES :: "zone list" where
  "ZONES =
    [\<lparr>zone_label = ''Too Low'', zone_color = ''bg-red-500'', zone_from = 0, zone_to = 25\<rparr>,
     \<lparr>zone_label = ''Getting Warmer'', zone_color = ''bg-yellow-500'', zone_from = 25, zone_to = 55\<rparr>,
     \<lparr>zone_label = ''Fair Deal'', zone_color = ''bg-green-500'', zone_from = 55, zone_to = 85\<rparr>,
     \<lparr>zone_label = ''Shop Price'', zone_color = ''bg-blue-500'', zone_from = 85, zone_to = 100\<rparr>]"

definition visualFloor :: "real \<Rightarrow> real \<Rightarrow> real" where
  "visualFloor anchor vfp = anchor * vfp"

definition meter_range :: "real \<Rightarrow> real \<Rightarrow> real" where
  "meter_range anchor vfp = anchor - visualFloor anchor vfp"

definition percentage :: "real \<Rightarrow> real \<Rightarrow> real \<Rightarrow> real" where
  "percentage anchor vfp cur =
     (if meter_range anchor vfp > 0
      then max 0 (min 100 (((cur - visualFloor anchor vfp) / meter_range anchor vfp) * 100))
      else 50)"

text \<open>\<open>ZONES.find((z) => percentage >= z.from && percentage < z.to)\<close>\<close>

definition find_zone :: "real \<Rightarrow> zone option" where
  "find_zone p = List.find (\<lambda>z. p \<ge> zone_from z \<and> p < zone_to z) ZONES"

text \<open>\<open>... || ZONES[0]\<close>: a zone object is truthy, \<open>undefined\<close> falls through.\<close>

definition activeZone :: "real \<Rightarrow> zone" where
  "activeZone p = (case find_zone p of Some z \<Rightarrow> z | None \<Rightarrow> ZONES ! 0)"

text \<open>
  What the component renders. \<open>formatPrice\<close> is applied to the two bounds and to the
  current price; the view keeps the numbers that are formatted.
\<close>

record meter_view =
  shown_lower :: real
  shown_label :: string
  shown_upper :: real
  pointer_left :: real
  shown_current :: real

datatype meter_render = Placeholder | Meter meter_view

definition visualFloorPercent_default :: real where
  "visualFloorPercent_default = 6 / 10"

definition FairnessMeter :: "real \<Rightarrow> real \<Rightarrow> NegotiationStore \<Rightarrow> meter_render" where
  "FairnessMeter anchor vfp s =
     (let cur = currentPrice s;
          p = percentage anchor vfp cur;
          z = activeZone p
      in case state s of
           None \<Rightarrow> Placeholder
         | Some _ \<Rightarrow>
             Meter \<lparr>shown_lower = visualFloor anchor vfp,
                    shown_label = zone_label z,
                    shown_upper = anchor,
                    pointer_left = p,
                    shown_current = cur\<rparr>)"


section \<open>\<open>lib/api.ts\<close>\<close>

text \<open>
  A request is what \<open>apiFetch\<close> hands to \<open>fetch\<close>: the path (the URL is \<open>API_BASE\<close>
  followed by the path), the method, the merged headers and the body. The body is kept
  as the object given to \<open>JSON.stringify\<close>. Headers are an object, modelled as a map;
  the spread \<open>{a, ...b}\<close> is \<open>a ++ b\<close>, the right operand winning.
\<close>

datatype body =
    StartBody string string string
  | OfferBody jsnum string string

record RequestInit =
  ri_method :: "string option"
  ri_headers :: "string \<rightharpoonup> string"
  ri_body :: "body option"

record request =
  req_path :: string
  req_method :: "string option"
  req_headers :: "string \<rightharpoonup> string"
  req_body :: "body option"

record ApiError =
  err_status :: "int option"
  err_message :: string

text \<open>What awaiting an API call gives: the call throws, or it returns the parsed response.\<close>

type_synonym api_reply = "ApiError + NegotiationResponse"

definition hex_digit :: "nat \<Rightarrow> char" where
  "hex_digit n = ''0123456789ABCDEF'' ! n"

definition uri_unreserved :: "char \<Rightarrow> bool" where
  "uri_unreserved c =
     (let n = (of_char c :: nat)
      in (65 \<le> n \<and> n \<le> 90) \<or> (97 \<le> n \<and> n \<le> 122) \<or> (48 \<le> n \<and> n \<le> 57)
         \<or> c \<in> set ''-_.!~*'()'')"

text \<open>
  \<open>encodeURIComponent\<close> on a string held as its UTF-8 bytes: the unreserved characters
  stay, every other byte becomes \<open>%XX\<close>.
\<close>

definition encodeURIComponent :: "string \<Rightarrow> string" where
  "encodeURIComponent s =
     concat (map (\<lambda>c. if uri_unreserved c then [c]
                       else [CHR ''%'', hex_digit (of_char c div 16), hex_digit (of_char c mod 16)]) s)"

definition apiFetch :: "string \<Rightarrow> RequestInit \<Rightarrow> request" where
  "apiFetch path options =
     \<lparr>req_path = path,
      req_method = ri_method options,
      req_headers = [''Content-Type'' \<mapsto> ''application/json''] ++ ri_headers options,
      req_body = ri_body options\<rparr>"

definition startNegotiation :: "string \<Rightarrow> string \<Rightarrow> string \<Rightarrow> request" where
  "startNegotiation productId' buyerName lang =
     apiFetch ''/api/v1/negotiate/start''
       \<lparr>ri_method = Some ''POST'',
        ri_headers = Map.empty,
        ri_body = Some (StartBody productId' buyerName lang)\<rparr>"

definition api_sendOffer :: "string \<Rightarrow> string \<Rightarrow> jsnum \<Rightarrow> string \<Rightarrow> string \<Rightarrow> request" where
  "api_sendOffer sid tok price msg lang =
     apiFetch (''/api/v1/negotiate/'' @ encodeURIComponent sid @ ''/offer'')
       \<lparr>ri_method = Some ''POST'',
        ri_headers = [''Content-Type'' \<mapsto> ''application/json'', ''X-Session-Token'' \<mapsto> tok],
        ri_body = Some (OfferBody price msg lang)\<rparr>"

definition getStatus :: "string \<Rightarrow> string \<Rightarrow> request" where
  "getStatus sid tok =
     apiFetch (''/api/v1/negotiate/'' @ encodeURIComponent sid @ ''/status'')
       \<lparr>ri_method = None,
        ri_headers = [''X-Session-Token'' \<mapsto> tok],
        ri_body = None\<rparr>"


section \<open>\<open>stores/negotiation.ts\<close>: the actions\<close>

text \<open>
  The browser the store runs in: whether \<open>window\<close> is defined (it is not during
  server-side rendering) and the contents of \<open>localStorage\<close>.
\<close>

record browser =
  window_defined :: bool
  localStorage :: "string \<rightharpoonup> string"

text \<open>\<open>x || "en"\<close> on the result of \<open>getItem\<close>: \<open>null\<close> and the empty string are falsy.\<close>

definition getPersistedLanguage :: "browser \<Rightarrow> string" where
  "getPersistedLanguage b =
     (if \<not> window_defined b then ''en''
      else case localStorage b ''mol-bhav-lang'' of
             None \<Rightarrow> ''en''
           | Some v \<Rightarrow> if v = [] then ''en'' else v)"

definition initial_store :: "browser \<Rightarrow> NegotiationStore" where
  "initial_store b =
     \<lparr>sessionId = None, sessionToken = None, productId = None, productName = [],
      anchorPrice = 0, currentPrice = 0, agreedPrice = None, state = None, tactic_tag = [],
      round_no = 0, maxRounds = 15, messages = [], isLoading = False,
      language = getPersistedLanguage b, flounceUsed = False, drawerOpen = False\<rparr>"

definition setDrawerOpen :: "bool \<Rightarrow> NegotiationStore \<Rightarrow> NegotiationStore" where
  "setDrawerOpen open' s = s\<lparr>drawerOpen := open'\<rparr>"

definition setLanguage :: "string \<Rightarrow> browser \<times> NegotiationStore \<Rightarrow> browser \<times> NegotiationStore" where
  "setLanguage lang bs =
     (case bs of (b, s) \<Rightarrow>
        ((if window_defined b
          then b\<lparr>localStorage := (localStorage b)(''mol-bhav-lang'' \<mapsto> lang)\<rparr>
          else b),
         s\<lparr>language := lang\<rparr>))"

definition reset :: "NegotiationStore \<Rightarrow> NegotiationStore" where
  "reset s =
     s\<lparr>sessionId := None, sessionToken := None, productId := None, productName := [],
       anchorPrice := 0, currentPrice := 0, agreedPrice := None, state := None, tactic_tag := [],
       round_no := 0, maxRounds := 15, messages := [], isLoading := False,
       flounceUsed := False, drawerOpen := False\<rparr>"

text \<open>
  \<open>generateId()\<close> (from \<open>Math.random\<close>) and \<open>new Date()\<close> are inputs of the model: every
  action that builds a chat message is given the id and the time it draws.

  \<open>res.anchor_price || s.anchorPrice\<close>: the number \<open>0\<close> is falsy.
\<close>

definition applyResponse ::
  "NegotiationResponse \<Rightarrow> bool \<Rightarrow> string \<Rightarrow> nat \<Rightarrow> NegotiationStore \<Rightarrow> NegotiationStore" where
  "applyResponse res isStart new_id now s =
     (let sellerMsg =
        \<lparr>msg_id = new_id, msg_actor = Seller, msg_text = Text (message res),
         msg_price = Fin (current_price res), msg_tactic = Some (res_tactic res),
         msg_metadata = Some (res_metadata res), msg_timestamp = now, msg_status = Sent\<rparr>
      in s\<lparr>sessionId := Some (session_id res),
            sessionToken := (if isStart then Some (session_token res) else sessionToken s),
            anchorPrice := (if anchor_price res = 0 then anchorPrice s else anchor_price res),
            currentPrice := current_price res,
            agreedPrice := agreed_price res,
            state := Some (res_state res),
            tactic_tag := res_tactic res,
            round_no := res_round res,
            maxRounds := max_rounds res,
            messages := messages s @ [sellerMsg],
            isLoading := False\<rparr>)"

text \<open>
  An asynchronous action is run to its end in one step: the model is given what the
  awaited API call produces, and returns the store afterwards, the requests that were
  sent, and the error the action throws (\<open>None\<close> when it returns normally). Nothing else
  runs between the two halves of an action.
\<close>

type_synonym action_result = "NegotiationStore \<times> request list \<times> ApiError option"

definition startSession ::
  "string \<Rightarrow> string \<Rightarrow> string \<Rightarrow> nat \<Rightarrow> api_reply \<Rightarrow> NegotiationStore \<Rightarrow> action_result" where
  "startSession productId' productName' new_id now reply s =
     (let s1 = s\<lparr>isLoading := True, productId := Some productId', productName := productName',
                  messages := [], flounceUsed := False, agreedPrice := None, state := None\<rparr>;
          req = startNegotiation productId' [] (language s1)
      in case reply of
           Inr res \<Rightarrow> (applyResponse res True new_id now s1, [req], None)
         | Inl err \<Rightarrow> (s1\<lparr>isLoading := False\<rparr>, [req], Some err))"

text \<open>
  \<open>!x\<close> for \<open>x: string | null\<close>: \<open>null\<close> and the empty string are falsy. After the
  guard of \<open>sendOffer\<close> both values are strings; the last branch of its \<open>case\<close> is never
  taken.
\<close>

definition falsy :: "string option \<Rightarrow> bool" where
  "falsy x = (case x of None \<Rightarrow> True | Some v \<Rightarrow> v = [])"

definition set_status :: "string \<Rightarrow> msg_status \<Rightarrow> ChatMessage list \<Rightarrow> ChatMessage list" where
  "set_status i st ms = map (\<lambda>m. if msg_id m = i then m\<lparr>msg_status := st\<rparr> else m) ms"

text \<open>
  The inputs of one \<open>sendOffer\<close>: the id and time of the buyer's message, what the API
  call produces, and the id and time \<open>_applyResponse\<close> draws for the seller's message.
\<close>

record offer_env =
  buyer_msg_id :: string
  buyer_now :: nat
  offer_reply :: api_reply
  seller_msg_id :: string
  seller_now :: nat

text \<open>The object \<open>buyerMsg\<close> that \<open>sendOffer\<close> builds; \<open>message || ...\<close> tests for the empty string.\<close>

definition buyer_message :: "jsnum \<Rightarrow> string \<Rightarrow> offer_env \<Rightarrow> ChatMessage" where
  "buyer_message price msg env =
     \<lparr>msg_id = buyer_msg_id env, msg_actor = Buyer,
      msg_text = (if msg = [] then RupeeLocaleString price else Text msg),
      msg_price = price, msg_tactic = None, msg_metadata = None,
      msg_timestamp = buyer_now env, msg_status = Sending\<rparr>"

definition sendOffer :: "jsnum \<Rightarrow> string \<Rightarrow> offer_env \<Rightarrow> NegotiationStore \<Rightarrow> action_result" where
  "sendOffer price msg env s =
     (if falsy (sessionId s) \<or> falsy (sessionToken s) then (s, [], None)
      else case (sessionId s, sessionToken s) of
        (Some sid, Some tok) \<Rightarrow>
          (let lang = language s;
               buyerMsg = buyer_message price msg env;
               s1 = s\<lparr>messages := messages s @ [buyerMsg], isLoading := True\<rparr>;
               req = api_sendOffer sid tok price msg lang
           in case offer_reply env of
                Inr res \<Rightarrow>
                  (let s2 = s1\<lparr>messages := set_status (msg_id buyerMsg) Sent (messages s1)\<rparr>
                   in (applyResponse res False (seller_msg_id env) (seller_now env) s2,
                       [req], None))
              | Inl err \<Rightarrow>
                  (s1\<lparr>isLoading := False,
                       messages := set_status (msg_id buyerMsg) Error (messages s1)\<rparr>,
                   [req], Some err))
      | _ \<Rightarrow> (s, [], None))"

text \<open>
  The two halves of \<open>sendOffer\<close>, for a run in which the buyer does something while
  the call is awaited. The first half is what runs up to the \<open>await\<close>: the guard, the
  first \<open>set\<close> and the request (\<open>None\<close> when the guard returns). The second half is what
  runs when the call settles, on the store as it is at that time.
\<close>

definition sendOffer_begin ::
  "jsnum \<Rightarrow> string \<Rightarrow> offer_env \<Rightarrow> NegotiationStore \<Rightarrow> (NegotiationStore \<times> request) option" where
  "sendOffer_begin price msg env s =
     (if falsy (sessionId s) \<or> falsy (sessionToken s) then None
      else case (sessionId s, sessionToken s) of
        (Some sid, Some tok) \<Rightarrow>
          Some (s\<lparr>messages := messages s @ [buyer_message price msg env], isLoading := True\<rparr>,
                api_sendOffer sid tok price msg (language s))
      | _ \<Rightarrow> None)"

definition sendOffer_settle :: "offer_env \<Rightarrow> NegotiationStore \<Rightarrow> NegotiationStore \<times> ApiError option" where
  "sendOffer_settle env s1 =
     (case offer_reply env of
        Inr res \<Rightarrow>
          (applyResponse res False (seller_msg_id env) (seller_now env)
             (s1\<lparr>messages := set_status (buyer_msg_id env) Sent (messages s1)\<rparr>), None)
      | Inl err \<Rightarrow>
          (s1\<lparr>isLoading := False,
               messages := set_status (buyer_msg_id env) Error (messages s1)\<rparr>, Some err))"


section \<open>\<open>parseFloat\<close>\<close>

text \<open>
  The builtin, on ASCII input: leading white space is skipped, then the longest prefix
  that is a \<open>StrDecimalLiteral\<close> is read (a sign, then \<open>Infinity\<close> or digits with an
  optional fraction and exponent); when there is none the result is \<open>NaN\<close>. The value of
  a finite literal is exact (a literal beyond the range of a double is not turned into
  an infinity).
\<close>

definition is_digit :: "char \<Rightarrow> bool" where
  "is_digit c = (48 \<le> (of_char c :: nat) \<and> (of_char c :: nat) \<le> 57)"

definition is_space :: "char \<Rightarrow> bool" where
  "is_space c = ((of_char c :: nat) \<in> {9, 10, 11, 12, 13, 32})"

definition digits_val :: "string \<Rightarrow> nat" where
  "digits_val ds = foldl (\<lambda>a c. 10 * a + ((of_char c :: nat) - 48)) 0 ds"

definition pow10 :: "int \<Rightarrow> real" where
  "pow10 e = (if e \<ge> 0 then 10 ^ nat e else 1 / 10 ^ nat (- e))"

definition parse_exponent :: "string \<Rightarrow> int" where
  "parse_exponent r =
     (case r of
        [] \<Rightarrow> 0
      | c # t \<Rightarrow>
          if c = CHR ''e'' \<or> c = CHR ''E'' then
            (case t of
               [] \<Rightarrow> 0
             | d # u \<Rightarrow>
                 if d = CHR ''-'' then - int (digits_val (takeWhile is_digit u))
                 else if d = CHR ''+'' then int (digits_val (takeWhile is_digit u))
                 else int (digits_val (takeWhile is_digit t)))
          else 0)"

definition parse_unsigned :: "string \<Rightarrow> jsnum" where
  "parse_unsigned r =
     (if take 8 r = ''Infinity'' then PosInfinity
      else
        let ip = takeWhile is_digit r;
            r1 = dropWhile is_digit r;
            fp = (case r1 of [] \<Rightarrow> [] | c # t \<Rightarrow> if c = CHR ''.'' then takeWhile is_digit t else []);
            r2 = (case r1 of [] \<Rightarrow> [] | c # t \<Rightarrow> if c = CHR ''.'' then dropWhile is_digit t else r1)
        in if ip = [] \<and> fp = [] then NaN
           else Fin ((real (digits_val ip) + real (digits_val fp) / 10 ^ length fp)
                     * pow10 (parse_exponent r2)))"

fun negate :: "jsnum \<Rightarrow> jsnum" where
  "negate (Fin r) = Fin (- r)"
| "negate PosInfinity = NegInfinity"
| "negate NegInfinity = PosInfinity"
| "negate NaN = NaN"

definition parseFloat :: "string \<Rightarrow> jsnum" where
  "parseFloat input =
     (case dropWhile is_space input of
        [] \<Rightarrow> NaN
      | c # t \<Rightarrow>
          if c = CHR ''-'' then negate (parse_unsigned t)
          else if c = CHR ''+'' then parse_unsigned t
          else parse_unsigned (c # t))"


section \<open>\<open>PriceInput.tsx\<close>\<close>

text \<open>The component's own state (\<open>useState\<close>).\<close>

record price_input =
  priceStr :: string
  pi_message :: string
  showMessage :: bool

definition isTerminal :: "NegotiationStore \<Rightarrow> bool" where
  "isTerminal s = (state s = Some Agreed \<or> state s = Some Broken \<or> state s = Some Timed_out)"

definition pi_disabled :: "NegotiationStore \<Rightarrow> bool" where
  "pi_disabled s = (isLoading s \<or> isTerminal s)"

text \<open>The \<open>disabled\<close> attribute of each control, as rendered.\<close>

definition message_input_disabled :: "NegotiationStore \<Rightarrow> bool" where
  "message_input_disabled s = pi_disabled s"

definition toggle_button_disabled :: "NegotiationStore \<Rightarrow> bool" where
  "toggle_button_disabled s = pi_disabled s"

definition price_input_disabled :: "NegotiationStore \<Rightarrow> bool" where
  "price_input_disabled s = pi_disabled s"

definition submit_button_disabled :: "NegotiationStore \<Rightarrow> price_input \<Rightarrow> bool" where
  "submit_button_disabled s p = (pi_disabled s \<or> priceStr p = [])"

text \<open>\<open>priceStr.replace(/,/g, "")\<close> and \<open>message.trim()\<close> (ASCII white space).\<close>

definition remove_commas :: "string \<Rightarrow> string" where
  "remove_commas str = filter (\<lambda>c. c \<noteq> CHR '','') str"

definition trim :: "string \<Rightarrow> string" where
  "trim str = rev (dropWhile is_space (rev (dropWhile is_space str)))"

text \<open>The toast shown for an error thrown by \<open>sendOffer\<close>; the emoji is its UTF-8 bytes.\<close>

definition offer_error_toast :: "ApiError \<Rightarrow> string" where
  "offer_error_toast e =
     (if err_status e = Some 429
        then ''Thoda ruko! Too fast '' @ [CHR 0xF0, CHR 0x9F, CHR 0x98, CHR 0x85]
      else if err_status e = Some 410 \<or> err_status e = Some 404
        then ''Session expired. Start a new negotiation.''
      else if err_message e = [] then ''Something went wrong'' else err_message e)"

text \<open>
  The result of a handler: the component state, the store, the requests sent and the
  toasts shown.
\<close>

type_synonym 'c handled = "'c \<times> NegotiationStore \<times> request list \<times> string list"

definition handleSubmit :: "offer_env \<Rightarrow> price_input \<Rightarrow> NegotiationStore \<Rightarrow> price_input handled" where
  "handleSubmit env p s =
     (let price = parseFloat (remove_commas (priceStr p))
      in if isNaN price \<or> le_zero price then (p, s, [], [''Enter a valid price''])
         else case sendOffer price (trim (pi_message p)) env s of
                (s', reqs, None) \<Rightarrow>
                  (p\<lparr>priceStr := [], pi_message := [], showMessage := False\<rparr>, s', reqs, [])
              | (s', reqs, Some err) \<Rightarrow> (p, s', reqs, [offer_error_toast err]))"

text \<open>
  What the buyer can do with the form. A disabled control takes no input and a form
  whose submit button is disabled is not submitted, so an event on a disabled control
  changes nothing.
\<close>

datatype pi_event =
    TypePrice string
  | TypeMessage string
  | ToggleMessage
  | Submit offer_env

fun pi_step :: "pi_event \<Rightarrow> price_input \<Rightarrow> NegotiationStore \<Rightarrow> price_input handled" where
  "pi_step (TypePrice v) p s =
     (if price_input_disabled s then (p, s, [], []) else (p\<lparr>priceStr := v\<rparr>, s, [], []))"
| "pi_step (TypeMessage v) p s =
     (if message_input_disabled s \<or> \<not> showMessage p then (p, s, [], [])
      else (p\<lparr>pi_message := v\<rparr>, s, [], []))"
| "pi_step ToggleMessage p s =
     (if toggle_button_disabled s then (p, s, [], [])
      else (p\<lparr>showMessage := \<not> showMessage p\<rparr>, s, [], []))"
| "pi_step (Submit env) p s =
     (if submit_button_disabled s p then (p, s, [], []) else handleSubmit env p s)"

fun pi_run :: "pi_event list \<Rightarrow> price_input \<Rightarrow> NegotiationStore \<Rightarrow> price_input handled" where
  "pi_run [] p s = (p, s, [], [])"
| "pi_run (e # es) p s =
     (case pi_step e p s of
        (p1, s1, reqs1, toasts1) \<Rightarrow>
          (case pi_run es p1 s1 of
             (p2, s2, reqs2, toasts2) \<Rightarrow> (p2, s2, reqs1 @ reqs2, toasts1 @ toasts2)))"


section \<open>\<open>NegotiationDrawer.tsx\<close> and \<open>DigitalFlounce.tsx\<close>\<close>

text \<open>
  The drawer's own state is \<open>showFlounce\<close>. Its prop \<open>onOpenChange\<close> is the store's
  \<open>setDrawerOpen\<close> (\<open>ProductActions\<close> passes it), and the dialog's props \<open>onClose\<close> and
  \<open>onLeave\<close> are the drawer's \<open>handleFlounceClose\<close> and \<open>handleFlouceLeave\<close>.
\<close>

definition isActive :: "NegotiationStore \<Rightarrow> bool" where
  "isActive s =
     (case state s of
        None \<Rightarrow> False
      | Some st \<Rightarrow> st \<noteq> Agreed \<and> st \<noteq> Broken \<and> st \<noteq> Timed_out)"

text \<open>The branch of \<open>handleOpenChange\<close> that shows the dialog instead of closing.\<close>

definition intercepts :: "bool \<Rightarrow> NegotiationStore \<Rightarrow> bool" where
  "intercepts nextOpen s = (\<not> nextOpen \<and> isActive s \<and> \<not> flounceUsed s)"

definition handleOpenChange :: "bool \<Rightarrow> bool \<Rightarrow> NegotiationStore \<Rightarrow> bool \<times> NegotiationStore" where
  "handleOpenChange nextOpen showFlounce s =
     (if \<not> nextOpen \<and> isActive s \<and> \<not> flounceUsed s then (True, s)
      else (showFlounce,
            (let s1 = setDrawerOpen nextOpen s in if \<not> nextOpen then reset s1 else s1)))"

definition handleFlounceClose :: "bool \<Rightarrow> NegotiationStore \<Rightarrow> bool \<times> NegotiationStore" where
  "handleFlounceClose showFlounce s = (False, s)"

definition handleFlouceLeave :: "bool \<Rightarrow> NegotiationStore \<Rightarrow> bool \<times> NegotiationStore" where
  "handleFlouceLeave showFlounce s = (False, reset (setDrawerOpen False s))"

text \<open>\<open>Math.round\<close> rounds to the nearest integer, a half upwards, as \<^const>\<open>round\<close> does.\<close>

definition walkAwayPrice :: "NegotiationStore \<Rightarrow> int" where
  "walkAwayPrice s = round (currentPrice s * (95 / 100))"

definition handleAcceptDeal :: "offer_env \<Rightarrow> bool \<Rightarrow> NegotiationStore \<Rightarrow> bool handled" where
  "handleAcceptDeal env showFlounce s =
     (case sendOffer (Fin (real_of_int (walkAwayPrice s))) ''Walk-away deal accepted'' env s of
        (s', reqs, None) \<Rightarrow>
          (fst (handleFlounceClose showFlounce s'), s'\<lparr>flounceUsed := True\<rparr>, reqs, [])
      | (s', reqs, Some err) \<Rightarrow>
          (fst (handleFlounceClose showFlounce s'), s', reqs,
           [if err_message err = [] then ''Failed to accept deal'' else err_message err]))"


section \<open>\<open>LanguageToggle.tsx\<close>\<close>

text \<open>
  \<open>LANGUAGE_LABELS\<close> in the order of its keys; the labels are their UTF-8 bytes. The
  toggle offers one radio item for each entry, with the key as its value.
\<close>

definition LANGUAGE_LABELS :: "(string \<times> string) list" where
  "LANGUAGE_LABELS =
     [(''en'', ''English''),
      (''hi'', [CHR 0xE0, CHR 0xA4, CHR 0xB9, CHR 0xE0, CHR 0xA4, CHR 0xBF, CHR 0xE0, CHR 0xA4,
               CHR 0xA8, CHR 0xE0, CHR 0xA5, CHR 0x8D, CHR 0xE0, CHR 0xA4, CHR 0xA6, CHR 0xE0,
               CHR 0xA5, CHR 0x80]),
      (''ta'', [CHR 0xE0, CHR 0xAE, CHR 0xA4, CHR 0xE0, CHR 0xAE, CHR 0xAE, CHR 0xE0, CHR 0xAE,
               CHR 0xBF, CHR 0xE0, CHR 0xAE, CHR 0xB4, CHR 0xE0, CHR 0xAF, CHR 0x8D]),
      (''te'', [CHR 0xE0, CHR 0xB0, CHR 0xA4, CHR 0xE0, CHR 0xB1, CHR 0x86, CHR 0xE0, CHR 0xB0,
               CHR 0xB2, CHR 0xE0, CHR 0xB1, CHR 0x81, CHR 0xE0, CHR 0xB0, CHR 0x97, CHR 0xE0,
               CHR 0xB1, CHR 0x81]),
      (''mr'', [CHR 0xE0, CHR 0xA4, CHR 0xAE, CHR 0xE0, CHR 0xA4, CHR 0xB0, CHR 0xE0, CHR 0xA4,
               CHR 0xBE, CHR 0xE0, CHR 0xA4, CHR 0xA0, CHR 0xE0, CHR 0xA5, CHR 0x80])]"

definition selectable_languages :: "string list" where
  "selectable_languages = map fst LANGUAGE_LABELS"


section \<open>The page as a whole\<close>

text \<open>
  The state of the product page: the browser, the store, and the state of the two
  components. An event is one thing the buyer does; the dialog's buttons exist only
  while the dialog is shown, and the language menu offers the selectable languages.
\<close>

record ui =
  ui_browser :: browser
  ui_store :: NegotiationStore
  ui_form :: price_input
  ui_showFlounce :: bool

datatype session_event =
    Form pi_event
  | OpenChange bool
  | AcceptDeal offer_env
  | FlounceDismiss
  | FlounceLeave
  | ChooseLanguage string

fun session_step :: "session_event \<Rightarrow> ui \<Rightarrow> ui \<times> request list" where
  "session_step (Form e) u =
     (case pi_step e (ui_form u) (ui_store u) of
        (p, s, reqs, toasts) \<Rightarrow> (u\<lparr>ui_form := p, ui_store := s\<rparr>, reqs))"
| "session_step (OpenChange nextOpen) u =
     (case handleOpenChange nextOpen (ui_showFlounce u) (ui_store u) of
        (sh, s) \<Rightarrow> (u\<lparr>ui_showFlounce := sh, ui_store := s\<rparr>, []))"
| "session_step (AcceptDeal env) u =
     (if \<not> ui_showFlounce u then (u, [])
      else case handleAcceptDeal env (ui_showFlounce u) (ui_store u) of
             (sh, s, reqs, toasts) \<Rightarrow> (u\<lparr>ui_showFlounce := sh, ui_store := s\<rparr>, reqs))"
| "session_step FlounceDismiss u =
     (if \<not> ui_showFlounce u then (u, [])
      else case handleFlounceClose (ui_showFlounce u) (ui_store u) of
             (sh, s) \<Rightarrow> (u\<lparr>ui_showFlounce := sh, ui_store := s\<rparr>, []))"
| "session_step FlounceLeave u =
     (if \<not> ui_showFlounce u then (u, [])
      else case handleFlouceLeave (ui_showFlounce u) (ui_store u) of
             (sh, s) \<Rightarrow> (u\<lparr>ui_showFlounce := sh, ui_store := s\<rparr>, []))"
| "session_step (ChooseLanguage l) u =
     (if l \<notin> set selectable_languages then (u, [])
      else case setLanguage l (ui_browser u, ui_store u) of
             (b, s) \<Rightarrow> (u\<lparr>ui_browser := b, ui_store := s\<rparr>, []))"

text \<open>A sequence of events within a session, with the requests it sends.\<close>

fun session_run :: "session_event list \<Rightarrow> ui \<Rightarrow> ui \<times> request list" where
  "session_run [] u = (u, [])"
| "session_run (e # es) u =
     (case session_step e u of
        (u1, reqs1) \<Rightarrow> (case session_run es u1 of (u2, reqs2) \<Rightarrow> (u2, reqs1 @ reqs2)))"

text \<open>
  The negotiation is over and the dialog is not shown: the session is in a terminal
  state, or the store has been reset and holds no session.
\<close>

definition negotiation_over :: "ui \<Rightarrow> bool" where
  "negotiation_over u =
     (\<not> ui_showFlounce u
      \<and> (isTerminal (ui_store u)
         \<or> (state (ui_store u) = None \<and> sessionId (ui_store u) = None)))"

text \<open>Whether an event, in a state, runs the store's \<open>reset()\<close>.\<close>

fun calls_reset :: "session_event \<Rightarrow> ui \<Rightarrow> bool" where
  "calls_reset (OpenChange nextOpen) u =
     (\<not> intercepts nextOpen (ui_store u) \<and> \<not> nextOpen)"
| "calls_reset FlounceLeave u = ui_showFlounce u"
| "calls_reset _ u = False"

text \<open>Whether an event, in a state, is a close of the drawer that the dialog intercepts.\<close>

fun fires :: "session_event \<Rightarrow> ui \<Rightarrow> bool" where
  "fires (OpenChange nextOpen) u = intercepts nextOpen (ui_store u)"
| "fires _ u = False"

text \<open>
  Whether the intercept fires somewhere along a sequence of events, before the first
  event that resets the store.
\<close>

fun fires_before_reset :: "session_event list \<Rightarrow> ui \<Rightarrow> bool" where
  "fires_before_reset [] u = False"
| "fires_before_reset (e # es) u =
     (if calls_reset e u then False
      else fires e u \<or> fires_before_reset es (fst (session_step e u)))"

text \<open>
  \<open>handleNegotiate\<close> of \<open>ProductActions\<close> opens the drawer and starts a session; with it
  the events cover a whole visit of the page.
\<close>

datatype app_event =
    Negotiate string string string nat api_reply
  | InSession session_event

fun app_step :: "app_event \<Rightarrow> ui \<Rightarrow> ui \<times> request list" where
  "app_step (Negotiate pid pname new_id now reply) u =
     (case startSession pid pname new_id now reply (setDrawerOpen True (ui_store u)) of
        (s, reqs, thrown) \<Rightarrow> (u\<lparr>ui_store := s\<rparr>, reqs))"
| "app_step (InSession e) u = session_step e u"

text \<open>
  The token the server issued last: the \<open>session_token\<close> of the latest start response
  the page has received. It is not part of the program; the traces carry it so that a
  request can be compared with it.
\<close>

fun issued :: "string option \<Rightarrow> app_event \<Rightarrow> string option" where
  "issued g (Negotiate pid pname new_id now (Inr res)) = Some (session_token res)"
| "issued g _ = g"

text \<open>Every request a sequence of events sends, with the token issued when it is sent.\<close>

fun app_trace :: "string option \<Rightarrow> app_event list \<Rightarrow> ui \<Rightarrow> (request \<times> string option) list" where
  "app_trace g [] u = []"
| "app_trace g (e # es) u =
     (case app_step e u of
        (u', reqs) \<Rightarrow> map (\<lambda>r. (r, g)) reqs @ app_trace (issued g e) es u')"

definition is_offer :: "request \<Rightarrow> bool" where
  "is_offer r = (case req_body r of Some (OfferBody p m l) \<Rightarrow> True | _ \<Rightarrow> False)"

text \<open>The token of the store is the issued one, or there is none (after a reset).\<close>

definition token_inv :: "string option \<Rightarrow> ui \<Rightarrow> bool" where
  "token_inv g u = (sessionToken (ui_store u) = None \<or> sessionToken (ui_store u) = g)"

definition initial_ui :: "browser \<Rightarrow> ui" where
  "initial_ui b =
     \<lparr>ui_browser = b, ui_store = initial_store b,
      ui_form = \<lparr>priceStr = [], pi_message = [], showMessage = False\<rparr>,
      ui_showFlounce = False\<rparr>"


section \<open>Products and the pages that show them\<close>

text \<open>
  \<open>Product\<close> of \<open>types/index.ts\<close>, as \<open>fetchProducts\<close> and \<open>fetchProduct\<close> return it; its
  fields carry the prefix \<open>p_\<close>.
\<close>

record Product =
  p_id :: string
  p_name :: string
  p_category :: string
  p_anchor_price :: real
  p_cost_price :: real
  p_min_margin :: real
  p_target_margin :: real
  p_metadata :: metadata

text \<open>
  \<open>HomePage\<close> and \<open>ProductDetailPage\<close> run on the server; \<open>ProductGrid\<close> and
  \<open>ProductActions\<close> are client components (\<open>"use client"\<close>), so the props they are given
  are sent to the browser. \<open>HomePage\<close> renders \<open>ProductGrid\<close> with the fetched list when
  the list is not empty; \<open>ProductDetailPage\<close> renders \<open>ProductActions\<close> with the fetched
  product. Each definition gives the prop that reaches the client.
\<close>

definition HomePage :: "Product list \<Rightarrow> Product list option" where
  "HomePage products = (if length products = 0 then None else Some products)"

definition ProductDetailPage :: "Product \<Rightarrow> Product" where
  "ProductDetailPage product = product"

text \<open>
  Modelled from the spec: the floor price of a product (sections 3 and 4.1),
  \<open>cost_price * (1 + min_margin)\<close> rounded up to an integer; the pricing engine that
  computes it is not among the sources.
\<close>

definition product_floor :: "Product \<Rightarrow> int" where
  "product_floor p = \<lceil>p_cost_price p * (1 + p_min_margin p)\<rceil>"


section \<open>The seller's session\<close>

text \<open>
  The server that holds the sessions and builds the responses is not among the sources;
  the three declarations of this section follow the spec.
\<close>

text \<open>
  Modelled from the spec: the record \<open>Offer\<close> of the data model (section 3), an entry of
  a session's list of offers.
\<close>

record Offer =
  offer_actor :: actor
  offer_price :: real
  offer_message :: string
  offer_tactic :: string
  offer_timestamp :: nat
  offer_round :: int
  offer_features :: metadata

text \<open>
  Modelled from the spec: the record \<open>NegotiationSession\<close> of the data model (section 3),
  with the floor price that the seller never reveals.
\<close>

record NegotiationSession =
  ns_session_id :: string
  ns_session_token :: string
  ns_product_id :: string
  ns_buyer_id_or_ip :: string
  ns_language :: string
  ns_anchor_price :: real
  ns_floor_price :: real
  ns_current_price :: real
  ns_last_buyer_price :: real
  ns_round :: int
  ns_max_rounds :: int
  ns_state :: NegotiationState
  ns_tactic :: string
  ns_sentiment :: string
  ns_beta :: real
  ns_alpha :: real
  ns_offers :: "Offer list"
  ns_bot_score :: real
  ns_flounce_used :: bool
  ns_coupons_applied :: "string list"
  ns_created_at :: nat
  ns_updated_at :: nat
  ns_agreed_price :: "real option"
  ns_quote_ttl_seconds :: int

text \<open>
  Modelled from the spec: the projection of a session to the wire format
  \<open>session_response\<close> (section 6). The response takes its message and metadata from the
  dialogue generator and every other field from the session's field of the same name.
\<close>

definition session_response :: "NegotiationSession \<Rightarrow> string \<Rightarrow> metadata \<Rightarrow> NegotiationResponse" where
  "session_response sess msg meta =
     \<lparr>session_id = ns_session_id sess,
      session_token = ns_session_token sess,
      message = msg,
      current_price = ns_current_price sess,
      anchor_price = ns_anchor_price sess,
      res_state = ns_state sess,
      res_tactic = ns_tactic sess,
      sentiment = ns_sentiment sess,
      res_round = ns_round sess,
      max_rounds = ns_max_rounds sess,
      quote_ttl_seconds = ns_quote_ttl_seconds sess,
      agreed_price = ns_agreed_price sess,
      res_metadata = meta\<rparr>"

text \<open>
  What the buyer sees of a session on the meter: the session's response is applied to
  the store, and the meter is drawn with the floor percentage and with the anchor price
  the page passes down, which is the product's listed price, the session's anchor.
\<close>

definition meter_of_session ::
  "real \<Rightarrow> NegotiationSession \<Rightarrow> string \<Rightarrow> metadata \<Rightarrow> bool \<Rightarrow> string \<Rightarrow> nat
     \<Rightarrow> NegotiationStore \<Rightarrow> meter_render" where
  "meter_of_session vfp sess msg meta isStart new_id now s =
     FairnessMeter (ns_anchor_price sess) vfp
       (applyResponse (session_response sess msg meta) isStart new_id now s)"


section \<open>Example values\<close>

text \<open>
  A browser with nothing stored, the start response of a session on a product listed
  at 12999, a counter-offer, an error of the API, and the inputs of an offer that is
  answered and of one that fails.
\<close>

definition demo_browser :: browser where
  "demo_browser = \<lparr>window_defined = True, localStorage = Map.empty\<rparr>"

definition demo_start_response :: NegotiationResponse where
  "demo_start_response =
     \<lparr>session_id = ''0123456789abcdef0123456789abcdef'', session_token = ''tok-1'',
      message = ''Namaste'', current_price = 12999, anchor_price = 12999,
      res_state = Proposing, res_tactic = ''opening_anchor'', sentiment = ''neutral'',
      res_round = 0, max_rounds = 15, quote_ttl_seconds = 60, agreed_price = None,
      res_metadata = []\<rparr>"

definition demo_counter_response :: NegotiationResponse where
  "demo_counter_response =
     \<lparr>session_id = ''0123456789abcdef0123456789abcdef'', session_token = [],
      message = ''Thoda aur'', current_price = 12500, anchor_price = 12999,
      res_state = Responding, res_tactic = ''concession'', sentiment = ''neutral'',
      res_round = 1, max_rounds = 15, quote_ttl_seconds = 60, agreed_price = None,
      res_metadata = []\<rparr>"

definition demo_error :: ApiError where
  "demo_error = \<lparr>err_status = Some 429, err_message = ''Too many requests''\<rparr>"

definition demo_env_ok :: offer_env where
  "demo_env_ok =
     \<lparr>buyer_msg_id = ''b1'', buyer_now = 1, offer_reply = Inr demo_counter_response,
      seller_msg_id = ''s1'', seller_now = 2\<rparr>"

definition demo_env_fail :: offer_env where
  "demo_env_fail =
     \<lparr>buyer_msg_id = ''b1'', buyer_now = 1, offer_reply = Inl demo_error,
      seller_msg_id = ''s1'', seller_now = 2\<rparr>"

definition demo_store :: NegotiationStore where
  "demo_store =
     fst (startSession ''p1'' ''Phone'' ''s0'' 0 (Inr demo_start_response)
            (initial_store demo_browser))"

definition demo_agreed_store :: NegotiationStore where
  "demo_agreed_store = demo_store\<lparr>state := Some Agreed, agreedPrice := Some 12999\<rparr>"

text \<open>The page while the walk-away dialog is shown.\<close>

definition demo_ui :: ui where
  "demo_ui =
     \<lparr>ui_browser = demo_browser, ui_store = demo_store,
      ui_form = \<lparr>priceStr = [], pi_message = [], showMessage = False\<rparr>,
      ui_showFlounce = True\<rparr>"

text \<open>The seller's side of the example session, with a floor of 9450.\<close>

definition demo_session :: NegotiationSession where
  "demo_session =
     \<lparr>ns_session_id = ''0123456789abcdef0123456789abcdef'', ns_session_token = ''tok-1'',
      ns_product_id = ''p1'', ns_buyer_id_or_ip = ''203.0.113.7'', ns_language = ''en'',
      ns_anchor_price = 12999, ns_floor_price = 9450, ns_current_price = 12500,
      ns_last_buyer_price = 9000, ns_round = 1, ns_max_rounds = 15,
      ns_state = Responding, ns_tactic = ''concession'', ns_sentiment = ''neutral'',
      ns_beta = 5, ns_alpha = 6 / 10, ns_offers = [], ns_bot_score = 0,
      ns_flounce_used = False, ns_coupons_applied = [], ns_created_at = 0,
      ns_updated_at = 2, ns_agreed_price = None, ns_quote_ttl_seconds = 60\<rparr>"

text \<open>The product of the example session: cost 9000 and a least margin of 5%.\<close>

definition demo_product :: Product where
  "demo_product =
     \<lparr>p_id = ''p1'', p_name = ''Phone'', p_category = ''electronics'',
      p_anchor_price = 12999, p_cost_price = 9000, p_min_margin = 5 / 100,
      p_target_margin = 30 / 100, p_metadata = []\<rparr>"

text \<open>
  An offer of 12000 that the seller accepts, and a later call that the server answers
  with 410 because the session is closed, or with a counter-offer.
\<close>

definition demo_agreed_response :: NegotiationResponse where
  "demo_agreed_response =
     \<lparr>session_id = ''0123456789abcdef0123456789abcdef'', session_token = [],
      message = ''Pakka'', current_price = 12000, anchor_price = 12999,
      res_state = Agreed, res_tactic = ''accept'', sentiment = ''positive'',
      res_round = 1, max_rounds = 15, quote_ttl_seconds = 60, agreed_price = Some 12000,
      res_metadata = []\<rparr>"

definition demo_env_agreed :: offer_env where
  "demo_env_agreed =
     \<lparr>buyer_msg_id = ''b1'', buyer_now = 1, offer_reply = Inr demo_agreed_response,
      seller_msg_id = ''s1'', seller_now = 3\<rparr>"

definition demo_env_closed :: offer_env where
  "demo_env_closed =
     \<lparr>buyer_msg_id = ''b2'', buyer_now = 4,
      offer_reply = Inl \<lparr>err_status = Some 410, err_message = ''session_closed''\<rparr>,
      seller_msg_id = ''s2'', seller_now = 5\<rparr>"

definition demo_env_again :: offer_env where
  "demo_env_again =
     \<lparr>buyer_msg_id = ''b2'', buyer_now = 4, offer_reply = Inr demo_counter_response,
      seller_msg_id = ''s2'', seller_now = 5\<rparr>"

text \<open>
  The example store while the offer of 12000 is awaited, and when the response has
  arrived.
\<close>

definition demo_pending_store :: NegotiationStore where
  "demo_pending_store =
     (case sendOffer_begin (Fin 12000) [] demo_env_agreed demo_store of
        Some (s1, req) \<Rightarrow> s1
      | None \<Rightarrow> demo_store)"

definition demo_terminal_store :: NegotiationStore where
  "demo_terminal_store = fst (sendOffer_settle demo_env_agreed demo_pending_store)"

text \<open>A visit: a session is started, the buyer types a price and submits it.\<close>

definition demo_events :: "app_event list" where
  "demo_events =
     [Negotiate ''p1'' ''Phone'' ''s0'' 0 (Inr demo_start_response),
      InSession (Form (TypePrice ''9,000'')),
      InSession (Form (Submit demo_env_ok))]"


section \<open>The store of the example session\<close>

lemma demo_store_eq:
  "demo_store =
     \<lparr>sessionId = Some ''0123456789abcdef0123456789abcdef'', sessionToken = Some ''tok-1'',
      productId = Some ''p1'', productName = ''Phone'', anchorPrice = 12999,
      currentPrice = 12999, agreedPrice = None, state = Some Proposing,
      tactic_tag = ''opening_anchor'', round_no = 0, maxRounds = 15,
      messages = [\<lparr>msg_id = ''s0'', msg_actor = Seller, msg_text = Text ''Namaste'',
                   msg_price = Fin 12999, msg_tactic = Some ''opening_anchor'',
                   msg_metadata = Some [], msg_timestamp = 0, msg_status = Sent\<rparr>],
      isLoading = False, language = ''en'', flounceUsed = False, drawerOpen = False\<rparr>"
  by (simp add: demo_store_def startSession_def applyResponse_def initial_store_def
        demo_browser_def demo_start_response_def getPersistedLanguage_def Let_def)


section \<open>The fairness meter\<close>









section \<open>The store's \<open>sendOffer\<close>\<close>

lemma sendOffer_no_session:
  "falsy (sessionId s) \<or> falsy (sessionToken s) \<Longrightarrow> sendOffer price msg env s = (s, [], None)"
  by (simp add: sendOffer_def)

lemma buyer_message_id [simp]: "msg_id (buyer_message price msg env) = buyer_msg_id env"
  by (simp add: buyer_message_def)

lemma sendOffer_resolved:
  assumes "sessionId s = Some sid" "sessionToken s = Some tok" "sid \<noteq> []" "tok \<noteq> []"
    and "offer_reply env = Inr res"
  shows "sendOffer price msg env s =
     (applyResponse res False (seller_msg_id env) (seller_now env)
        (s\<lparr>isLoading := True,
            messages := set_status (buyer_msg_id env) Sent (messages s @ [buyer_message price msg env])\<rparr>),
      [api_sendOffer sid tok price msg (language s)], None)"
  using assms by (simp add: sendOffer_def falsy_def Let_def)

lemma sendOffer_rejected:
  assumes "sessionId s = Some sid" "sessionToken s = Some tok" "sid \<noteq> []" "tok \<noteq> []"
    and "offer_reply env = Inl err"
  shows "sendOffer price msg env s =
     (s\<lparr>isLoading := False,
         messages := set_status (buyer_msg_id env) Error (messages s @ [buyer_message price msg env])\<rparr>,
      [api_sendOffer sid tok price msg (language s)], Some err)"
  using assms by (simp add: sendOffer_def falsy_def Let_def)

lemma sendOffer_requests:
  assumes "sessionId s = Some sid" "sessionToken s = Some tok" "sid \<noteq> []" "tok \<noteq> []"
  shows "fst (snd (sendOffer price msg env s)) = [api_sendOffer sid tok price msg (language s)]"
  using assms by (cases "offer_reply env") (simp_all add: sendOffer_resolved sendOffer_rejected)

text \<open>
  Claim C2. The price the walk-away dialog offers is the current seller price less 5%,
  rounded to the nearest integer: it differs from 95% of the current price by at most
  one half, it does not depend on the anchor price, and when a session is open it is
  the price of the one offer request that accepting the deal sends.
\<close>

theorem walk_away_price:
  "walkAwayPrice s = round (currentPrice s - currentPrice s * (5 / 100))
   \<and> \<bar>real_of_int (walkAwayPrice s) - currentPrice s * (95 / 100)\<bar> \<le> 1 / 2
   \<and> walkAwayPrice (s\<lparr>anchorPrice := a\<rparr>) = walkAwayPrice s
   \<and> (sessionId s = Some sid \<and> sessionToken s = Some tok \<and> sid \<noteq> [] \<and> tok \<noteq> [] \<longrightarrow>
        fst (snd (snd (handleAcceptDeal env sh s))) =
          [api_sendOffer sid tok (Fin (real_of_int (round (currentPrice s * (95 / 100)))))
             ''Walk-away deal accepted'' (language s)])"
proof -
  have e: "currentPrice s - currentPrice s * (5 / 100) = currentPrice s * (95 / 100)" by simp
  have 1: "walkAwayPrice s = round (currentPrice s - currentPrice s * (5 / 100))"
    unfolding e by (simp add: walkAwayPrice_def)
  have 2: "\<bar>real_of_int (walkAwayPrice s) - currentPrice s * (95 / 100)\<bar> \<le> 1 / 2"
    unfolding walkAwayPrice_def by (rule of_int_round_abs_le)
  have 3: "walkAwayPrice (s\<lparr>anchorPrice := a\<rparr>) = walkAwayPrice s"
    by (simp add: walkAwayPrice_def)
  have 4: "sessionId s = Some sid \<and> sessionToken s = Some tok \<and> sid \<noteq> [] \<and> tok \<noteq> [] \<longrightarrow>
        fst (snd (snd (handleAcceptDeal env sh s))) =
          [api_sendOffer sid tok (Fin (real_of_int (round (currentPrice s * (95 / 100)))))
             ''Walk-away deal accepted'' (language s)]"
  proof
    assume h: "sessionId s = Some sid \<and> sessionToken s = Some tok \<and> sid \<noteq> [] \<and> tok \<noteq> []"
    then have "fst (snd (sendOffer (Fin (real_of_int (walkAwayPrice s))) ''Walk-away deal accepted'' env s))
       = [api_sendOffer sid tok (Fin (real_of_int (walkAwayPrice s))) ''Walk-away deal accepted'' (language s)]"
      by (simp add: sendOffer_requests)
    then show "fst (snd (snd (handleAcceptDeal env sh s))) =
          [api_sendOffer sid tok (Fin (real_of_int (round (currentPrice s * (95 / 100)))))
             ''Walk-away deal accepted'' (language s)]"
      by (auto simp: handleAcceptDeal_def walkAwayPrice_def split: prod.splits option.splits)
  qed
  from 1 2 3 4 show ?thesis by blast
qed


text \<open>At a current price of 12999 the walk-away price is 12349.\<close>

theorem walk_away_price_witness:
  "walkAwayPrice demo_store = 12349
   \<and> fst (snd (snd (handleAcceptDeal demo_env_ok True demo_store))) =
       [api_sendOffer ''0123456789abcdef0123456789abcdef'' ''tok-1'' (Fin 12349)
          ''Walk-away deal accepted'' ''en'']"
proof -
  have h: "sessionId demo_store = Some ''0123456789abcdef0123456789abcdef''
      \<and> sessionToken demo_store = Some ''tok-1''
      \<and> ''0123456789abcdef0123456789abcdef'' \<noteq> [] \<and> ''tok-1'' \<noteq> []"
    by (simp add: demo_store_eq)
  have r: "round (currentPrice demo_store * (95 / 100)) = 12349"
    by (simp add: demo_store_eq round_def)
  have c: "currentPrice demo_store - currentPrice demo_store * (5 / 100)
         = currentPrice demo_store * (95 / 100)" by simp
  from walk_away_price [of demo_store _ "''0123456789abcdef0123456789abcdef''" "''tok-1''"
         demo_env_ok True] h
  have "walkAwayPrice demo_store = round (currentPrice demo_store - currentPrice demo_store * (5 / 100))"
    and "fst (snd (snd (handleAcceptDeal demo_env_ok True demo_store))) =
          [api_sendOffer ''0123456789abcdef0123456789abcdef'' ''tok-1''
             (Fin (real_of_int (round (currentPrice demo_store * (95 / 100)))))
             ''Walk-away deal accepted'' (language demo_store)]"
    by blast+
  then show ?thesis unfolding c r by (simp add: demo_store_eq)
qed

lemma set_status_fresh: "i \<notin> msg_id ` set ms \<Longrightarrow> set_status i st ms = ms"
  by (induction ms) (auto simp: set_status_def)

lemma set_status_append:
  "set_status i st (ms @ [m]) = set_status i st ms @ [if msg_id m = i then m\<lparr>msg_status := st\<rparr> else m]"
  by (simp add: set_status_def)

lemma not_falsy: "\<not> falsy x \<longleftrightarrow> (\<exists>v. x = Some v \<and> v \<noteq> [])"
  by (cases x) (simp_all add: falsy_def)

text \<open>
  Claim C10. When the store holds no session id or no session token, \<open>sendOffer\<close>
  returns normally, sends no request and leaves the store, with its chat messages, as
  it was. That is so on the store as created and on a store that has been reset.
\<close>

theorem sendOffer_without_session:
  "(sessionId s = None \<or> sessionToken s = None \<longrightarrow>
      sendOffer price msg env s = (s, [], None))
   \<and> sendOffer price msg env (initial_store b) = (initial_store b, [], None)
   \<and> sendOffer price msg env (reset s) = (reset s, [], None)"
proof -
  have none: "falsy None" by (simp add: falsy_def)
  have 1: "sessionId s = None \<or> sessionToken s = None \<longrightarrow>
      sendOffer price msg env s = (s, [], None)"
  proof
    assume "sessionId s = None \<or> sessionToken s = None"
    with none have "falsy (sessionId s) \<or> falsy (sessionToken s)" by auto
    then show "sendOffer price msg env s = (s, [], None)" by (rule sendOffer_no_session)
  qed
  have "falsy (sessionId (initial_store b))" by (simp add: initial_store_def none)
  then have 2: "sendOffer price msg env (initial_store b) = (initial_store b, [], None)"
    by (simp add: sendOffer_no_session)
  have "falsy (sessionId (reset s))" by (simp add: reset_def none)
  then have 3: "sendOffer price msg env (reset s) = (reset s, [], None)"
    by (simp add: sendOffer_no_session)
  from 1 2 3 show ?thesis by blast
qed

text \<open>
  On the example store once its token is gone, an offer changes nothing and sends
  nothing.
\<close>

theorem sendOffer_without_session_witness:
  "sendOffer (Fin 500) ''please'' demo_env_ok (demo_store\<lparr>sessionToken := None\<rparr>)
     = (demo_store\<lparr>sessionToken := None\<rparr>, [], None)"
proof -
  have h: "sessionId (demo_store\<lparr>sessionToken := None\<rparr>) = None
        \<or> sessionToken (demo_store\<lparr>sessionToken := None\<rparr>) = None"
    by simp
  have "sessionId (demo_store\<lparr>sessionToken := None\<rparr>) = None
        \<or> sessionToken (demo_store\<lparr>sessionToken := None\<rparr>) = None \<longrightarrow>
      sendOffer (Fin 500) ''please'' demo_env_ok (demo_store\<lparr>sessionToken := None\<rparr>)
        = (demo_store\<lparr>sessionToken := None\<rparr>, [], None)"
    by (rule sendOffer_without_session [where s = "demo_store\<lparr>sessionToken := None\<rparr>"
          and price = "Fin 500" and msg = "''please''" and env = demo_env_ok, THEN conjunct1])
  then show ?thesis using h by (rule mp)
qed

text \<open>
  Claim C5. When a session is open and the offer call throws, \<open>sendOffer\<close> throws the
  same error; the session id, token, state, round, current price, agreed price, tag and
  round limit of the store are what they were; \<open>isLoading\<close> is false; and the messages
  are the old ones, with status \<open>error\<close> wherever the id is that of the new message,
  followed by the buyer's message with status \<open>error\<close>. When the id drawn for the buyer's
  message is not the id of an older message, the store differs from the one before
  the call in nothing but that appended message and \<open>isLoading\<close>.
\<close>

theorem sendOffer_failure:
  assumes "\<not> falsy (sessionId s)" and "\<not> falsy (sessionToken s)"
    and "offer_reply env = Inl err"
    and "sendOffer price msg env s = (s', reqs, thrown)"
  shows "thrown = Some err
    \<and> sessionId s' = sessionId s \<and> sessionToken s' = sessionToken s
    \<and> state s' = state s \<and> round_no s' = round_no s
    \<and> currentPrice s' = currentPrice s \<and> agreedPrice s' = agreedPrice s
    \<and> tactic_tag s' = tactic_tag s \<and> maxRounds s' = maxRounds s
    \<and> isLoading s' = False
    \<and> messages s' = set_status (buyer_msg_id env) Error (messages s)
                      @ [(buyer_message price msg env)\<lparr>msg_status := Error\<rparr>]
    \<and> (buyer_msg_id env \<notin> msg_id ` set (messages s) \<longrightarrow>
          s' = s\<lparr>isLoading := False,
                 messages := messages s @ [(buyer_message price msg env)\<lparr>msg_status := Error\<rparr>]\<rparr>)"
proof -
  from assms(1,2) obtain sid tok where
    st: "sessionId s = Some sid" "sessionToken s = Some tok" "sid \<noteq> []" "tok \<noteq> []"
    by (auto simp: not_falsy)
  from sendOffer_rejected [OF st assms(3), of price msg] assms(4)
  have s': "s' = s\<lparr>isLoading := False,
         messages := set_status (buyer_msg_id env) Error (messages s @ [buyer_message price msg env])\<rparr>"
    and thrown: "thrown = Some err"
    by simp_all
  have ms: "set_status (buyer_msg_id env) Error (messages s @ [buyer_message price msg env])
      = set_status (buyer_msg_id env) Error (messages s)
          @ [(buyer_message price msg env)\<lparr>msg_status := Error\<rparr>]"
    by (simp add: set_status_append)
  show ?thesis
    using thrown by (simp add: s' ms set_status_fresh)
qed


text \<open>An offer of 9000 on the example session, answered by an error.\<close>

theorem sendOffer_failure_witness:
  "sendOffer (Fin 9000) [] demo_env_fail demo_store =
     (demo_store\<lparr>isLoading := False,
                 messages := messages demo_store
                   @ [(buyer_message (Fin 9000) [] demo_env_fail)\<lparr>msg_status := Error\<rparr>]\<rparr>,
      [api_sendOffer ''0123456789abcdef0123456789abcdef'' ''tok-1'' (Fin 9000) [] ''en''],
      Some demo_error)"
proof -
  obtain s' reqs thrown where so: "sendOffer (Fin 9000) [] demo_env_fail demo_store = (s', reqs, thrown)"
    by (cases "sendOffer (Fin 9000) [] demo_env_fail demo_store") auto
  have h1: "\<not> falsy (sessionId demo_store)" by (simp add: demo_store_eq falsy_def)
  have h2: "\<not> falsy (sessionToken demo_store)" by (simp add: demo_store_eq falsy_def)
  have h3: "offer_reply demo_env_fail = Inl demo_error" by (simp add: demo_env_fail_def)
  have h4: "buyer_msg_id demo_env_fail \<notin> msg_id ` set (messages demo_store)"
    by (simp add: demo_store_eq demo_env_fail_def)
  have rq: "reqs = [api_sendOffer ''0123456789abcdef0123456789abcdef'' ''tok-1'' (Fin 9000) [] ''en'']"
    using sendOffer_requests [of demo_store "''0123456789abcdef0123456789abcdef''" "''tok-1''"
             "Fin 9000" "[]" demo_env_fail] so
    by (simp add: demo_store_eq)
  from sendOffer_failure [OF h1 h2 h3 so] h4
  have "thrown = Some demo_error"
    and "s' = demo_store\<lparr>isLoading := False,
                 messages := messages demo_store
                   @ [(buyer_message (Fin 9000) [] demo_env_fail)\<lparr>msg_status := Error\<rparr>]\<rparr>"
    by blast+
  with so rq show ?thesis by simp
qed


section \<open>The session token\<close>

lemma applyResponse_token:
  "sessionToken (applyResponse res isStart i t s) =
     (if isStart then Some (session_token res) else sessionToken s)"
  by (simp add: applyResponse_def)

lemma header_api_sendOffer:
  "req_headers (api_sendOffer sid tok p m l) ''X-Session-Token'' = Some tok"
  by (simp add: api_sendOffer_def apiFetch_def)

lemma header_getStatus:
  "req_headers (getStatus sid tok) ''X-Session-Token'' = Some tok"
  by (simp add: getStatus_def apiFetch_def)

lemma is_offer_api_sendOffer: "is_offer (api_sendOffer sid tok p m l)"
  by (simp add: is_offer_def api_sendOffer_def apiFetch_def)

lemma not_offer_startNegotiation: "\<not> is_offer (startNegotiation pid bn l)"
  by (simp add: is_offer_def startNegotiation_def apiFetch_def)

text \<open>What one \<open>sendOffer\<close> does to the token, and the token its requests carry.\<close>

lemma sendOffer_token:
  assumes "sendOffer price msg env s = (s', reqs, thrown)"
  shows "sessionToken s' = sessionToken s
    \<and> (\<forall>r \<in> set reqs. is_offer r \<and> sessionToken s \<noteq> None
                       \<and> req_headers r ''X-Session-Token'' = sessionToken s)"
proof (cases "falsy (sessionId s) \<or> falsy (sessionToken s)")
  case True
  with assms show ?thesis by (simp add: sendOffer_no_session)
next
  case False
  then obtain sid tok where
    st: "sessionId s = Some sid" "sessionToken s = Some tok" "sid \<noteq> []" "tok \<noteq> []"
    by (auto simp: not_falsy)
  show ?thesis
  proof (cases "offer_reply env")
    case (Inl err)
    from sendOffer_rejected [OF st Inl, of price msg] assms show ?thesis
      by (auto simp: st header_api_sendOffer is_offer_api_sendOffer)
  next
    case (Inr res)
    from sendOffer_resolved [OF st Inr, of price msg] assms show ?thesis
      by (auto simp: st header_api_sendOffer is_offer_api_sendOffer applyResponse_token)
  qed
qed

lemma sendOffer_flounceUsed:
  assumes "sendOffer price msg env s = (s', reqs, thrown)"
  shows "flounceUsed s' = flounceUsed s"
proof (cases "falsy (sessionId s) \<or> falsy (sessionToken s)")
  case True
  with assms show ?thesis by (simp add: sendOffer_no_session)
next
  case False
  then obtain sid tok where
    st: "sessionId s = Some sid" "sessionToken s = Some tok" "sid \<noteq> []" "tok \<noteq> []"
    by (auto simp: not_falsy)
  show ?thesis
  proof (cases "offer_reply env")
    case (Inl err)
    from sendOffer_rejected [OF st Inl, of price msg] assms show ?thesis by auto
  next
    case (Inr res)
    from sendOffer_resolved [OF st Inr, of price msg] assms show ?thesis
      by (auto simp: applyResponse_def)
  qed
qed

lemma handleSubmit_token:
  assumes "handleSubmit env p s = (p', s', reqs, toasts)"
  shows "sessionToken s' = sessionToken s
    \<and> (\<forall>r \<in> set reqs. is_offer r \<and> sessionToken s \<noteq> None
                       \<and> req_headers r ''X-Session-Token'' = sessionToken s)"
proof (cases "isNaN (parseFloat (remove_commas (priceStr p))) \<or> le_zero (parseFloat (remove_commas (priceStr p)))")
  case True
  with assms show ?thesis by (simp add: handleSubmit_def Let_def)
next
  case False
  obtain s1 reqs1 thr where so:
    "sendOffer (parseFloat (remove_commas (priceStr p))) (trim (pi_message p)) env s = (s1, reqs1, thr)"
    by (cases "sendOffer (parseFloat (remove_commas (priceStr p))) (trim (pi_message p)) env s") auto
  from assms False so have "s' = s1 \<and> reqs = reqs1"
    by (cases thr) (simp_all add: handleSubmit_def Let_def)
  with sendOffer_token [OF so] show ?thesis by simp
qed

lemma pi_step_token:
  assumes "pi_step e p s = (p', s', reqs, toasts)"
  shows "sessionToken s' = sessionToken s
    \<and> (\<forall>r \<in> set reqs. is_offer r \<and> sessionToken s \<noteq> None
                       \<and> req_headers r ''X-Session-Token'' = sessionToken s)"
proof (cases e)
  case (Submit env)
  show ?thesis
  proof (cases "submit_button_disabled s p")
    case True
    with assms Submit show ?thesis by simp
  next
    case False
    with assms Submit have "handleSubmit env p s = (p', s', reqs, toasts)" by simp
    then show ?thesis by (rule handleSubmit_token)
  qed
qed (use assms in \<open>auto split: if_splits\<close>)

lemma handleAcceptDeal_token:
  assumes "handleAcceptDeal env sh s = (sh', s', reqs, toasts)"
  shows "sessionToken s' = sessionToken s
    \<and> (\<forall>r \<in> set reqs. is_offer r \<and> sessionToken s \<noteq> None
                       \<and> req_headers r ''X-Session-Token'' = sessionToken s)"
proof -
  obtain s1 reqs1 thr where so:
    "sendOffer (Fin (real_of_int (walkAwayPrice s))) ''Walk-away deal accepted'' env s = (s1, reqs1, thr)"
    by (cases "sendOffer (Fin (real_of_int (walkAwayPrice s))) ''Walk-away deal accepted'' env s") auto
  from assms so have "sessionToken s' = sessionToken s1 \<and> reqs = reqs1"
    by (cases thr) (auto simp: handleAcceptDeal_def)
  with sendOffer_token [OF so] show ?thesis by simp
qed

lemma session_step_token:
  assumes "session_step e u = (u', reqs)" and "token_inv g u"
  shows "token_inv g u'
    \<and> (\<forall>r \<in> set reqs. is_offer r \<and> g \<noteq> None \<and> req_headers r ''X-Session-Token'' = g)"
proof (cases e)
  case (Form fe)
  obtain p s rs ts where ps: "pi_step fe (ui_form u) (ui_store u) = (p, s, rs, ts)"
    by (cases "pi_step fe (ui_form u) (ui_store u)") auto
  with assms(1) Form have u': "u' = u\<lparr>ui_form := p, ui_store := s\<rparr>" "reqs = rs" by auto
  from pi_step_token [OF ps] assms(2) show ?thesis
    unfolding u' token_inv_def by auto
next
  case (OpenChange n)
  with assms show ?thesis
    by (auto simp: token_inv_def handleOpenChange_def Let_def reset_def setDrawerOpen_def
             split: if_splits)
next
  case (AcceptDeal env)
  show ?thesis
  proof (cases "ui_showFlounce u")
    case False
    with assms AcceptDeal show ?thesis by simp
  next
    case True
    obtain sh s rs ts where hd: "handleAcceptDeal env (ui_showFlounce u) (ui_store u) = (sh, s, rs, ts)"
      by (cases "handleAcceptDeal env (ui_showFlounce u) (ui_store u)") auto
    with assms(1) AcceptDeal True have u': "u' = u\<lparr>ui_showFlounce := sh, ui_store := s\<rparr>" "reqs = rs"
      by auto
    from handleAcceptDeal_token [OF hd] assms(2) show ?thesis
      unfolding u' token_inv_def by auto
  qed
next
  case FlounceDismiss
  with assms show ?thesis
    by (auto simp: token_inv_def handleFlounceClose_def split: if_splits)
next
  case FlounceLeave
  with assms show ?thesis
    by (auto simp: token_inv_def handleFlouceLeave_def reset_def setDrawerOpen_def split: if_splits)
next
  case (ChooseLanguage l)
  with assms show ?thesis
    by (auto simp: token_inv_def setLanguage_def split: if_splits)
qed

lemma app_step_token:
  assumes "app_step e u = (u', reqs)" and "token_inv g u"
  shows "token_inv (issued g e) u'
    \<and> (\<forall>r \<in> set reqs. is_offer r \<longrightarrow> g \<noteq> None \<and> req_headers r ''X-Session-Token'' = g)"
proof (cases e)
  case (Negotiate pid pname i t reply)
  show ?thesis
  proof (cases reply)
    case (Inl err)
    with assms Negotiate show ?thesis
      by (auto simp: startSession_def Let_def token_inv_def setDrawerOpen_def
                     not_offer_startNegotiation)
  next
    case (Inr res)
    with assms Negotiate show ?thesis
      by (auto simp: startSession_def Let_def token_inv_def setDrawerOpen_def
                     not_offer_startNegotiation applyResponse_token)
  qed
next
  case (InSession se)
  with assms have "session_step se u = (u', reqs)" by simp
  from session_step_token [OF this assms(2)] InSession show ?thesis by simp
qed

lemma app_trace_token:
  "token_inv g u \<Longrightarrow> (r, g') \<in> set (app_trace g evs u) \<Longrightarrow> is_offer r
     \<Longrightarrow> g' \<noteq> None \<and> req_headers r ''X-Session-Token'' = g'"
proof (induction evs arbitrary: g u)
  case Nil
  then show ?case by simp
next
  case (Cons e es)
  obtain u' reqs where st: "app_step e u = (u', reqs)" by (cases "app_step e u") auto
  from app_step_token [OF st Cons.prems(1)]
  have inv': "token_inv (issued g e) u'"
    and now: "\<forall>r \<in> set reqs. is_offer r \<longrightarrow> g \<noteq> None \<and> req_headers r ''X-Session-Token'' = g"
    by simp_all
  from Cons.prems(2) st
  consider "r \<in> set reqs" "g' = g" | "(r, g') \<in> set (app_trace (issued g e) es u')"
    by auto
  then show ?case
  proof cases
    case 1
    with now Cons.prems(3) show ?thesis by simp
  next
    case 2
    from Cons.IH [OF inv' 2 Cons.prems(3)] show ?thesis .
  qed
qed

lemma token_inv_initial: "token_inv None (initial_ui b)"
  by (simp add: token_inv_def initial_ui_def initial_store_def)


text \<open>
  Claim C7. \<open>_applyResponse\<close> stores the response's token when it applies a start
  response and keeps the store's token otherwise; the requests of \<open>sendOffer\<close> and
  \<open>getStatus\<close> of the API carry the token they are given in \<open>X-Session-Token\<close>; the
  store's \<open>sendOffer\<close> gives them the store's token; and along every sequence of events
  on the page, from the store as created, each offer request carries the token of the
  latest start response.
\<close>

theorem session_token_header:
  "sessionToken (applyResponse res True i t s) = Some (session_token res)
   \<and> sessionToken (applyResponse res False i t s) = sessionToken s
   \<and> req_headers (api_sendOffer sid tok p m l) ''X-Session-Token'' = Some tok
   \<and> req_headers (getStatus sid tok) ''X-Session-Token'' = Some tok
   \<and> (\<forall>r \<in> set (fst (snd (sendOffer price msg env s))).
         req_headers r ''X-Session-Token'' = sessionToken s)
   \<and> (\<forall>(r, g) \<in> set (app_trace None evs (initial_ui b)).
         is_offer r \<longrightarrow> g \<noteq> None \<and> req_headers r ''X-Session-Token'' = g)"
proof -
  have 5: "\<forall>r \<in> set (fst (snd (sendOffer price msg env s))).
         req_headers r ''X-Session-Token'' = sessionToken s"
    using sendOffer_token [of price msg env s]
    by (cases "sendOffer price msg env s") auto
  have 6: "\<forall>(r, g) \<in> set (app_trace None evs (initial_ui b)).
         is_offer r \<longrightarrow> g \<noteq> None \<and> req_headers r ''X-Session-Token'' = g"
    using app_trace_token [OF token_inv_initial] by blast
  show ?thesis
    using 5 6 by (simp add: applyResponse_token header_api_sendOffer header_getStatus)
qed

lemma pf_9000: "parseFloat (remove_commas ''9,000'') = Fin 9000"
  by (simp add: remove_commas_def parseFloat_def parse_unsigned_def is_space_def is_digit_def
        digits_val_def parse_exponent_def pow10_def)

lemma demo_trace:
  "app_trace None demo_events (initial_ui demo_browser) =
     [(startNegotiation ''p1'' [] ''en'', None),
      (api_sendOffer ''0123456789abcdef0123456789abcdef'' ''tok-1'' (Fin 9000) [] ''en'',
       Some ''tok-1'')]"
  by (simp add: demo_events_def initial_ui_def initial_store_def demo_browser_def
        getPersistedLanguage_def startSession_def setDrawerOpen_def applyResponse_def
        demo_start_response_def Let_def price_input_disabled_def submit_button_disabled_def
        pi_disabled_def isTerminal_def handleSubmit_def pf_9000 sendOffer_def falsy_def
        demo_env_ok_def trim_def)

text \<open>
  The offer of the example visit carries the token of its start response, and so does
  the request of a \<open>sendOffer\<close> on the example store.
\<close>

theorem session_token_header_witness:
  "(api_sendOffer ''0123456789abcdef0123456789abcdef'' ''tok-1'' (Fin 9000) [] ''en'',
     Some ''tok-1'') \<in> set (app_trace None demo_events (initial_ui demo_browser))
   \<and> req_headers (api_sendOffer ''0123456789abcdef0123456789abcdef'' ''tok-1'' (Fin 9000) [] ''en'')
        ''X-Session-Token'' = Some ''tok-1''
   \<and> map (\<lambda>r. req_headers r ''X-Session-Token'')
        (fst (snd (sendOffer (Fin 9000) [] demo_env_ok demo_store))) = [Some ''tok-1'']"
proof -
  let ?r = "api_sendOffer ''0123456789abcdef0123456789abcdef'' ''tok-1'' (Fin 9000) [] ''en''"
  have m: "(?r, Some ''tok-1'') \<in> set (app_trace None demo_events (initial_ui demo_browser))"
    by (simp add: demo_trace)
  have o: "is_offer ?r" by (rule is_offer_api_sendOffer)
  have "\<forall>(r, g) \<in> set (app_trace None demo_events (initial_ui demo_browser)).
         is_offer r \<longrightarrow> g \<noteq> None \<and> req_headers r ''X-Session-Token'' = g"
    by (rule session_token_header [where evs = demo_events and b = demo_browser,
          THEN conjunct2, THEN conjunct2, THEN conjunct2, THEN conjunct2, THEN conjunct2])
  with m o have hd: "req_headers ?r ''X-Session-Token'' = Some ''tok-1''" by blast
  have rq: "fst (snd (sendOffer (Fin 9000) [] demo_env_ok demo_store)) = [?r]"
    using sendOffer_requests [of demo_store "''0123456789abcdef0123456789abcdef''" "''tok-1''"
             "Fin 9000" "[]" demo_env_ok]
    by (simp add: demo_store_eq)
  have "\<forall>r \<in> set (fst (snd (sendOffer (Fin 9000) [] demo_env_ok demo_store))).
         req_headers r ''X-Session-Token'' = sessionToken demo_store"
    by (rule session_token_header [where price = "Fin 9000" and msg = "[]" and env = demo_env_ok
          and s = demo_store,
          THEN conjunct2, THEN conjunct2, THEN conjunct2, THEN conjunct2, THEN conjunct1])
  with rq have "map (\<lambda>r. req_headers r ''X-Session-Token'')
        (fst (snd (sendOffer (Fin 9000) [] demo_env_ok demo_store))) = [Some ''tok-1'']"
    by (simp add: demo_store_eq)
  with m hd show ?thesis by simp
qed


section \<open>The price input\<close>

lemma pi_step_terminal: "isTerminal s \<Longrightarrow> pi_step e p s = (p, s, [], [])"
  by (cases e)
     (simp_all add: price_input_disabled_def message_input_disabled_def
        toggle_button_disabled_def submit_button_disabled_def pi_disabled_def)

lemma pi_run_terminal: "isTerminal s \<Longrightarrow> pi_run evs p s = (p, s, [], [])"
  by (induction evs) (simp_all add: pi_step_terminal)

text \<open>
  Once the state of the session is \<open>agreed\<close>, \<open>broken\<close> or \<open>timed_out\<close>, the price input,
  the message input, the message toggle and the submit button are disabled; a submit
  changes nothing, and no sequence of events on the form changes the form or the
  store, sends a request or shows a toast.
\<close>

lemma price_input_inert_when_terminal:
  assumes "state s = Some Agreed \<or> state s = Some Broken \<or> state s = Some Timed_out"
  shows "price_input_disabled s \<and> message_input_disabled s \<and> submit_button_disabled s p
    \<and> toggle_button_disabled s
    \<and> pi_step (Submit env) p s = (p, s, [], [])
    \<and> pi_run evs p s = (p, s, [], [])"
proof -
  from assms have t: "isTerminal s" by (simp add: isTerminal_def)
  then have "pi_disabled s" by (simp add: pi_disabled_def)
  with t show ?thesis
    by (simp add: price_input_disabled_def message_input_disabled_def
          toggle_button_disabled_def submit_button_disabled_def pi_step_terminal pi_run_terminal)
qed

text \<open>After a deal, typing, toggling and submitting leave the form and the store alone.\<close>

lemma price_input_inert_when_terminal_example:
  "submit_button_disabled demo_agreed_store \<lparr>priceStr = ''9000'', pi_message = [], showMessage = False\<rparr>
   \<and> pi_run [TypePrice ''9500'', ToggleMessage, Submit demo_env_ok]
        \<lparr>priceStr = ''9000'', pi_message = [], showMessage = False\<rparr> demo_agreed_store
      = (\<lparr>priceStr = ''9000'', pi_message = [], showMessage = False\<rparr>, demo_agreed_store, [], [])"
proof -
  have "state demo_agreed_store = Some Agreed \<or> state demo_agreed_store = Some Broken
        \<or> state demo_agreed_store = Some Timed_out"
    by (simp add: demo_agreed_store_def)
  from price_input_inert_when_terminal [OF this] show ?thesis by blast
qed

section \<open>The walk-away dialog\<close>

lemma intercepts_iff:
  "intercepts nextOpen s \<longleftrightarrow>
     \<not> nextOpen \<and> (\<exists>st. state s = Some st \<and> st \<noteq> Agreed \<and> st \<noteq> Broken \<and> st \<noteq> Timed_out)
     \<and> \<not> flounceUsed s"
  by (cases "state s") (simp_all add: intercepts_def isActive_def)

lemma handleOpenChange_cases:
  "handleOpenChange nextOpen sh s =
     (if intercepts nextOpen s then (True, s)
      else (sh, if nextOpen then setDrawerOpen True s else reset (setDrawerOpen False s)))"
  by (auto simp: handleOpenChange_def intercepts_def Let_def)

lemma handleAcceptDeal_flounceUsed:
  assumes "handleAcceptDeal env sh s = (sh', s', reqs, toasts)"
  shows "flounceUsed s' =
     (case snd (snd (sendOffer (Fin (real_of_int (walkAwayPrice s))) ''Walk-away deal accepted'' env s)) of
        None \<Rightarrow> True | Some err \<Rightarrow> flounceUsed s)"
proof -
  obtain s1 reqs1 thr where so:
    "sendOffer (Fin (real_of_int (walkAwayPrice s))) ''Walk-away deal accepted'' env s = (s1, reqs1, thr)"
    by (cases "sendOffer (Fin (real_of_int (walkAwayPrice s))) ''Walk-away deal accepted'' env s") auto
  from sendOffer_flounceUsed [OF so] assms so show ?thesis
    by (cases thr) (auto simp: handleAcceptDeal_def)
qed

lemma handleSubmit_flounceUsed:
  assumes "handleSubmit env p s = (p', s', reqs, toasts)"
  shows "flounceUsed s' = flounceUsed s"
proof (cases "isNaN (parseFloat (remove_commas (priceStr p))) \<or> le_zero (parseFloat (remove_commas (priceStr p)))")
  case True
  with assms show ?thesis by (simp add: handleSubmit_def Let_def)
next
  case False
  obtain s1 reqs1 thr where so:
    "sendOffer (parseFloat (remove_commas (priceStr p))) (trim (pi_message p)) env s = (s1, reqs1, thr)"
    by (cases "sendOffer (parseFloat (remove_commas (priceStr p))) (trim (pi_message p)) env s") auto
  from assms False so have "s' = s1"
    by (cases thr) (simp_all add: handleSubmit_def Let_def)
  with sendOffer_flounceUsed [OF so] show ?thesis by simp
qed

lemma pi_step_flounceUsed:
  assumes "pi_step e p s = (p', s', reqs, toasts)"
  shows "flounceUsed s' = flounceUsed s"
proof (cases e)
  case (Submit env)
  show ?thesis
  proof (cases "submit_button_disabled s p")
    case True
    with assms Submit show ?thesis by simp
  next
    case False
    with assms Submit have "handleSubmit env p s = (p', s', reqs, toasts)" by simp
    then show ?thesis by (rule handleSubmit_flounceUsed)
  qed
qed (use assms in \<open>auto split: if_splits\<close>)

lemma session_step_keeps_flounceUsed:
  assumes "flounceUsed (ui_store u)" and "\<not> calls_reset e u"
  shows "flounceUsed (ui_store (fst (session_step e u)))"
proof (cases e)
  case (Form fe)
  obtain p s rs ts where ps: "pi_step fe (ui_form u) (ui_store u) = (p, s, rs, ts)"
    by (cases "pi_step fe (ui_form u) (ui_store u)") auto
  from pi_step_flounceUsed [OF ps] assms(1) Form ps show ?thesis by simp
next
  case (OpenChange n)
  with assms show ?thesis
    by (auto simp: handleOpenChange_cases intercepts_def setDrawerOpen_def)
next
  case (AcceptDeal env)
  obtain sh s rs ts where hd: "handleAcceptDeal env (ui_showFlounce u) (ui_store u) = (sh, s, rs, ts)"
    by (cases "handleAcceptDeal env (ui_showFlounce u) (ui_store u)") auto
  from handleAcceptDeal_flounceUsed [OF hd] assms(1) have "flounceUsed s"
    by (simp split: option.splits)
  with AcceptDeal hd assms(1) show ?thesis by (cases "ui_showFlounce u") simp_all
next
  case FlounceDismiss
  with assms show ?thesis by (simp add: handleFlounceClose_def)
next
  case FlounceLeave
  with assms show ?thesis by simp
next
  case (ChooseLanguage l)
  with assms show ?thesis by (simp add: setLanguage_def)
qed

lemma used_never_fires: "flounceUsed (ui_store u) \<Longrightarrow> \<not> fires_before_reset evs u"
proof (induction evs arbitrary: u)
  case Nil
  then show ?case by simp
next
  case (Cons e es)
  show ?case
  proof (cases "calls_reset e u")
    case True
    then show ?thesis by simp
  next
    case False
    from Cons.prems have nf: "\<not> fires e u" by (cases e) (simp_all add: intercepts_def)
    from session_step_keeps_flounceUsed [OF Cons.prems False]
    have "\<not> fires_before_reset es (fst (session_step e u))" by (rule Cons.IH)
    with False nf show ?thesis by simp
  qed
qed

text \<open>
  Claim C6, as amended. Closing the drawer is intercepted exactly when the drawer is
  being closed, the session has a state that is not terminal, and \<open>flounceUsed\<close> is
  false; otherwise \<open>handleOpenChange\<close> passes the change on (and resets the store on a
  close). Accepting the deal in the dialog sets \<open>flounceUsed\<close> when the call of
  \<open>sendOffer\<close> returns normally, and leaves it as it was when the call throws. From a
  state with \<open>flounceUsed\<close> set, and so after an accept whose call succeeded, along
  every sequence of events of the session (form, drawer, dialog, language menu) the
  intercept does not fire before the store is reset. \<open>reset\<close> clears \<open>flounceUsed\<close>, and
  so does \<open>startSession\<close>, which begins another session.
\<close>

theorem flounce_one_shot:
  "(intercepts nextOpen s \<longleftrightarrow>
      \<not> nextOpen \<and> (\<exists>st. state s = Some st \<and> st \<noteq> Agreed \<and> st \<noteq> Broken \<and> st \<noteq> Timed_out)
      \<and> \<not> flounceUsed s)
   \<and> handleOpenChange nextOpen sh s =
       (if intercepts nextOpen s then (True, s)
        else (sh, if nextOpen then setDrawerOpen True s else reset (setDrawerOpen False s)))
   \<and> (ui_showFlounce u
       \<and> snd (snd (sendOffer (Fin (real_of_int (walkAwayPrice (ui_store u))))
                     ''Walk-away deal accepted'' env (ui_store u))) = None
       \<longrightarrow> flounceUsed (ui_store (fst (session_step (AcceptDeal env) u)))
          \<and> \<not> fires_before_reset evs (fst (session_step (AcceptDeal env) u)))
   \<and> (ui_showFlounce u
       \<and> snd (snd (sendOffer (Fin (real_of_int (walkAwayPrice (ui_store u))))
                     ''Walk-away deal accepted'' env (ui_store u))) \<noteq> None
       \<longrightarrow> flounceUsed (ui_store (fst (session_step (AcceptDeal env) u)))
            = flounceUsed (ui_store u))
   \<and> (flounceUsed (ui_store u) \<longrightarrow> \<not> fires_before_reset evs u)
   \<and> \<not> flounceUsed (reset s)
   \<and> \<not> flounceUsed (fst (startSession pid pname new_id now reply s))"
proof -
  obtain sh' s' rs ts where hd:
    "handleAcceptDeal env (ui_showFlounce u) (ui_store u) = (sh', s', rs, ts)"
    by (cases "handleAcceptDeal env (ui_showFlounce u) (ui_store u)") auto
  have 3: "ui_showFlounce u
       \<and> snd (snd (sendOffer (Fin (real_of_int (walkAwayPrice (ui_store u))))
                     ''Walk-away deal accepted'' env (ui_store u))) = None
       \<longrightarrow> flounceUsed (ui_store (fst (session_step (AcceptDeal env) u)))
          \<and> \<not> fires_before_reset evs (fst (session_step (AcceptDeal env) u))"
  proof
    assume h: "ui_showFlounce u
       \<and> snd (snd (sendOffer (Fin (real_of_int (walkAwayPrice (ui_store u))))
                     ''Walk-away deal accepted'' env (ui_store u))) = None"
    from handleAcceptDeal_flounceUsed [OF hd] h have "flounceUsed s'" by simp
    with hd h have used: "flounceUsed (ui_store (fst (session_step (AcceptDeal env) u)))"
      by simp
    from used used_never_fires [OF used]
    show "flounceUsed (ui_store (fst (session_step (AcceptDeal env) u)))
          \<and> \<not> fires_before_reset evs (fst (session_step (AcceptDeal env) u))"
      by simp
  qed
  have 7: "ui_showFlounce u
       \<and> snd (snd (sendOffer (Fin (real_of_int (walkAwayPrice (ui_store u))))
                     ''Walk-away deal accepted'' env (ui_store u))) \<noteq> None
       \<longrightarrow> flounceUsed (ui_store (fst (session_step (AcceptDeal env) u)))
            = flounceUsed (ui_store u)"
  proof
    assume h: "ui_showFlounce u
       \<and> snd (snd (sendOffer (Fin (real_of_int (walkAwayPrice (ui_store u))))
                     ''Walk-away deal accepted'' env (ui_store u))) \<noteq> None"
    from handleAcceptDeal_flounceUsed [OF hd] h have "flounceUsed s' = flounceUsed (ui_store u)"
      by auto
    with hd h show "flounceUsed (ui_store (fst (session_step (AcceptDeal env) u)))
            = flounceUsed (ui_store u)"
      by simp
  qed
  have 4: "flounceUsed (ui_store u) \<longrightarrow> \<not> fires_before_reset evs u"
    by (simp add: used_never_fires)
  have 5: "\<not> flounceUsed (reset s)" by (simp add: reset_def)
  have 6: "\<not> flounceUsed (fst (startSession pid pname new_id now reply s))"
    by (cases reply) (simp_all add: startSession_def applyResponse_def Let_def)
  from intercepts_iff [of nextOpen s] handleOpenChange_cases [of nextOpen sh s] 3 7 4 5 6
  show ?thesis by blast
qed

text \<open>
  On the example session the intercept fires; once the deal has been accepted and the
  call has succeeded, it does not fire when the drawer is opened and closed again, nor
  from the example store with \<open>flounceUsed\<close> set; an accept whose call fails leaves
  \<open>flounceUsed\<close> as it was.
\<close>

theorem flounce_one_shot_witness:
  "fires (OpenChange False) demo_ui
   \<and> flounceUsed (ui_store (fst (session_step (AcceptDeal demo_env_ok) demo_ui)))
   \<and> \<not> fires_before_reset [OpenChange True, Form (TypePrice ''9000''), OpenChange False]
         (fst (session_step (AcceptDeal demo_env_ok) demo_ui))
   \<and> \<not> fires_before_reset [OpenChange False]
         (demo_ui\<lparr>ui_store := demo_store\<lparr>flounceUsed := True\<rparr>\<rparr>)
   \<and> flounceUsed (ui_store (fst (session_step (AcceptDeal demo_env_fail) demo_ui)))
       = flounceUsed (ui_store demo_ui)"
proof -
  have f: "fires (OpenChange False) demo_ui"
    by (simp add: demo_ui_def demo_store_eq intercepts_def isActive_def)
  have st: "sessionId demo_store = Some ''0123456789abcdef0123456789abcdef''"
    "sessionToken demo_store = Some ''tok-1''"
    "''0123456789abcdef0123456789abcdef'' \<noteq> []" "''tok-1'' \<noteq> []"
    by (simp_all add: demo_store_eq)
  have "sendOffer (Fin (real_of_int (walkAwayPrice demo_store))) ''Walk-away deal accepted''
          demo_env_ok demo_store
        = (applyResponse demo_counter_response False (seller_msg_id demo_env_ok) (seller_now demo_env_ok)
             (demo_store\<lparr>isLoading := True,
                messages := set_status (buyer_msg_id demo_env_ok) Sent
                  (messages demo_store
                     @ [buyer_message (Fin (real_of_int (walkAwayPrice demo_store)))
                          ''Walk-away deal accepted'' demo_env_ok])\<rparr>),
           [api_sendOffer ''0123456789abcdef0123456789abcdef'' ''tok-1''
              (Fin (real_of_int (walkAwayPrice demo_store))) ''Walk-away deal accepted''
              (language demo_store)], None)"
    by (rule sendOffer_resolved [OF st]) (simp add: demo_env_ok_def)
  then have h: "ui_showFlounce demo_ui
       \<and> snd (snd (sendOffer (Fin (real_of_int (walkAwayPrice (ui_store demo_ui))))
                     ''Walk-away deal accepted'' demo_env_ok (ui_store demo_ui))) = None"
    by (simp add: demo_ui_def)
  have "sendOffer (Fin (real_of_int (walkAwayPrice demo_store))) ''Walk-away deal accepted''
          demo_env_fail demo_store
        = (demo_store\<lparr>isLoading := False,
             messages := set_status (buyer_msg_id demo_env_fail) Error
               (messages demo_store
                  @ [buyer_message (Fin (real_of_int (walkAwayPrice demo_store)))
                       ''Walk-away deal accepted'' demo_env_fail])\<rparr>,
           [api_sendOffer ''0123456789abcdef0123456789abcdef'' ''tok-1''
              (Fin (real_of_int (walkAwayPrice demo_store))) ''Walk-away deal accepted''
              (language demo_store)], Some demo_error)"
    by (rule sendOffer_rejected [OF st]) (simp add: demo_env_fail_def)
  then have hf: "ui_showFlounce demo_ui
       \<and> snd (snd (sendOffer (Fin (real_of_int (walkAwayPrice (ui_store demo_ui))))
                     ''Walk-away deal accepted'' demo_env_fail (ui_store demo_ui))) \<noteq> None"
    by (simp add: demo_ui_def)
  from flounce_one_shot [where u = demo_ui and env = demo_env_ok
      and evs = "[OpenChange True, Form (TypePrice ''9000''), OpenChange False]"] h
  have "flounceUsed (ui_store (fst (session_step (AcceptDeal demo_env_ok) demo_ui)))
   \<and> \<not> fires_before_reset [OpenChange True, Form (TypePrice ''9000''), OpenChange False]
         (fst (session_step (AcceptDeal demo_env_ok) demo_ui))"
    by blast
  moreover have u: "flounceUsed (ui_store (demo_ui\<lparr>ui_store := demo_store\<lparr>flounceUsed := True\<rparr>\<rparr>))"
    by simp
  from flounce_one_shot [where u = "demo_ui\<lparr>ui_store := demo_store\<lparr>flounceUsed := True\<rparr>\<rparr>"
      and evs = "[OpenChange False]"] u
  have "\<not> fires_before_reset [OpenChange False]
         (demo_ui\<lparr>ui_store := demo_store\<lparr>flounceUsed := True\<rparr>\<rparr>)"
    by blast
  moreover from flounce_one_shot [where u = demo_ui and env = demo_env_fail] hf
  have "flounceUsed (ui_store (fst (session_step (AcceptDeal demo_env_fail) demo_ui)))
       = flounceUsed (ui_store demo_ui)"
    by blast
  ultimately show ?thesis using f by simp
qed

text \<open>
  The claim as it is written fails when the call fails: on the example session, with
  the dialog shown, the buyer accepts the deal and the server answers with an error.
  The offer was sent, \<open>flounceUsed\<close> is still false, and the next close of the drawer
  is intercepted again, with no reset in between.
\<close>

theorem flounce_failed_accept_counterexample:
  "ui_showFlounce demo_ui
   \<and> snd (session_step (AcceptDeal demo_env_fail) demo_ui)
       = [api_sendOffer ''0123456789abcdef0123456789abcdef'' ''tok-1'' (Fin 12349)
            ''Walk-away deal accepted'' ''en'']
   \<and> \<not> flounceUsed (ui_store (fst (session_step (AcceptDeal demo_env_fail) demo_ui)))
   \<and> fires_before_reset [OpenChange False] (fst (session_step (AcceptDeal demo_env_fail) demo_ui))"
proof -
  have w: "walkAwayPrice demo_store = 12349"
    by (simp add: walkAwayPrice_def demo_store_eq round_def)
  have st: "sessionId demo_store = Some ''0123456789abcdef0123456789abcdef''"
    "sessionToken demo_store = Some ''tok-1''"
    "''0123456789abcdef0123456789abcdef'' \<noteq> []" "''tok-1'' \<noteq> []"
    by (simp_all add: demo_store_eq)
  have rej: "sendOffer (Fin 12349) ''Walk-away deal accepted'' demo_env_fail demo_store
     = (demo_store\<lparr>isLoading := False,
          messages := set_status (buyer_msg_id demo_env_fail) Error
            (messages demo_store
               @ [buyer_message (Fin 12349) ''Walk-away deal accepted'' demo_env_fail])\<rparr>,
        [api_sendOffer ''0123456789abcdef0123456789abcdef'' ''tok-1'' (Fin 12349)
           ''Walk-away deal accepted'' (language demo_store)],
        Some demo_error)"
    by (rule sendOffer_rejected [OF st]) (simp add: demo_env_fail_def)
  show ?thesis
    by (simp add: demo_ui_def handleAcceptDeal_def w rej handleFlounceClose_def)
       (simp add: demo_store_eq intercepts_def isActive_def)
qed


section \<open>After the negotiation\<close>

text \<open>
  On the page as a whole: when the negotiation is over and the dialog is not shown, no
  sequence of events of the session sends a request, and that stays so.
\<close>

lemma handleSubmit_no_session:
  assumes "sessionId s = None"
  shows "fst (snd (handleSubmit env p s)) = s \<and> fst (snd (snd (handleSubmit env p s))) = []"
  using assms by (simp add: handleSubmit_def Let_def sendOffer_no_session falsy_def)

lemma pi_step_no_session:
  assumes "sessionId s = None"
  shows "fst (snd (pi_step e p s)) = s \<and> fst (snd (snd (pi_step e p s))) = []"
  using assms by (cases e) (simp_all add: handleSubmit_no_session)

lemma session_step_closed:
  assumes "negotiation_over u"
  shows "negotiation_over (fst (session_step e u)) \<and> snd (session_step e u) = []"
proof (cases e)
  case (Form fe)
  show ?thesis
  proof (cases "isTerminal (ui_store u)")
    case True
    with assms Form show ?thesis by (simp add: pi_step_terminal negotiation_over_def)
  next
    case False
    with assms have n: "sessionId (ui_store u) = None" "state (ui_store u) = None"
      by (simp_all add: negotiation_over_def)
    obtain p s rs ts where ps: "pi_step fe (ui_form u) (ui_store u) = (p, s, rs, ts)"
      by (cases "pi_step fe (ui_form u) (ui_store u)") auto
    with pi_step_no_session [OF n(1), of fe "ui_form u"] have "s = ui_store u" "rs = []"
      by simp_all
    with assms Form ps show ?thesis by (simp add: negotiation_over_def)
  qed
next
  case (OpenChange n)
  from assms have "\<not> isActive (ui_store u)"
    by (auto simp: negotiation_over_def isTerminal_def isActive_def)
  with assms OpenChange show ?thesis
    by (auto simp: handleOpenChange_def Let_def negotiation_over_def isTerminal_def
          setDrawerOpen_def reset_def)
next
  case (ChooseLanguage l)
  with assms show ?thesis
    by (auto simp: negotiation_over_def isTerminal_def setLanguage_def)
qed (use assms in \<open>simp_all add: negotiation_over_def\<close>)

lemma terminal_sends_no_request:
  "negotiation_over u \<Longrightarrow> negotiation_over (fst (session_run evs u)) \<and> snd (session_run evs u) = []"
proof (induction evs arbitrary: u)
  case Nil
  then show ?case by simp
next
  case (Cons e es)
  from session_step_closed [OF Cons.prems, of e]
  have c: "negotiation_over (fst (session_step e u))" and r: "snd (session_step e u) = []" by simp_all
  from Cons.IH [OF c] r show ?case by (simp add: split_beta)
qed


section \<open>An offer in flight when the drawer is closed\<close>

text \<open>The two halves of \<open>sendOffer\<close>, run one after the other, are \<open>sendOffer\<close>.\<close>

lemma sendOffer_split:
  "sendOffer price msg env s =
     (case sendOffer_begin price msg env s of
        None \<Rightarrow> (s, [], None)
      | Some (s1, req) \<Rightarrow>
          (case sendOffer_settle env s1 of (s2, thrown) \<Rightarrow> (s2, [req], thrown)))"
proof (cases "falsy (sessionId s) \<or> falsy (sessionToken s)")
  case True
  then show ?thesis by (simp add: sendOffer_no_session sendOffer_begin_def)
next
  case False
  then obtain sid tok where
    st: "sessionId s = Some sid" "sessionToken s = Some tok" "sid \<noteq> []" "tok \<noteq> []"
    by (auto simp: not_falsy)
  have b: "sendOffer_begin price msg env s =
      Some (s\<lparr>messages := messages s @ [buyer_message price msg env], isLoading := True\<rparr>,
            api_sendOffer sid tok price msg (language s))"
    using st by (simp add: sendOffer_begin_def falsy_def)
  show ?thesis
  proof (cases "offer_reply env")
    case (Inl err)
    from sendOffer_rejected [OF st Inl, of price msg] Inl show ?thesis
      by (simp add: b sendOffer_settle_def)
  next
    case (Inr res)
    from sendOffer_resolved [OF st Inr, of price msg] Inr show ?thesis
      by (simp add: b sendOffer_settle_def)
  qed
qed

lemma demo_pending_store_eq:
  "demo_pending_store =
     demo_store\<lparr>messages := messages demo_store @ [buyer_message (Fin 12000) [] demo_env_agreed],
                isLoading := True\<rparr>"
  by (simp add: demo_pending_store_def sendOffer_begin_def falsy_def demo_store_eq)

lemma demo_terminal_store_eq:
  "demo_terminal_store =
     \<lparr>sessionId = Some ''0123456789abcdef0123456789abcdef'', sessionToken = Some ''tok-1'',
      productId = Some ''p1'', productName = ''Phone'', anchorPrice = 12999,
      currentPrice = 12000, agreedPrice = Some 12000, state = Some Agreed,
      tactic_tag = ''accept'', round_no = 1, maxRounds = 15,
      messages = [\<lparr>msg_id = ''s0'', msg_actor = Seller, msg_text = Text ''Namaste'',
                   msg_price = Fin 12999, msg_tactic = Some ''opening_anchor'',
                   msg_metadata = Some [], msg_timestamp = 0, msg_status = Sent\<rparr>,
                  \<lparr>msg_id = ''b1'', msg_actor = Buyer, msg_text = RupeeLocaleString (Fin 12000),
                   msg_price = Fin 12000, msg_tactic = None,
                   msg_metadata = None, msg_timestamp = 1, msg_status = Sent\<rparr>,
                  \<lparr>msg_id = ''s1'', msg_actor = Seller, msg_text = Text ''Pakka'',
                   msg_price = Fin 12000, msg_tactic = Some ''accept'',
                   msg_metadata = Some [], msg_timestamp = 3, msg_status = Sent\<rparr>],
      isLoading = False, language = ''en'', flounceUsed = False, drawerOpen = False\<rparr>"
  by (simp add: demo_terminal_store_def demo_pending_store_eq sendOffer_settle_def
        demo_env_agreed_def demo_agreed_response_def applyResponse_def set_status_def
        buyer_message_def demo_store_eq)

text \<open>
  Claim C3. The claim says that after a terminal state no further mutation of the
  session is triggered from the UI. The form of \<open>PriceInput\<close> is disabled then (lemma
  \<open>price_input_inert_when_terminal\<close>), but the walk-away dialog is not: its
  \<open>handleAcceptDeal\<close> tests no state. On the example session the buyer submits 12000;
  while the call is awaited the session is still active, so closing the drawer is
  intercepted and the dialog is shown; the response then arrives with state \<open>agreed\<close>
  and the form is disabled. Pressing the dialog's accept button now sends an offer of
  11400 on the closed session and appends the buyer's message to the chat (left with
  status \<open>error\<close> when the server answers 410); when the server answers with a counter
  offer, the state and the current price of the store change as well.
\<close>

theorem accept_deal_on_terminal_session:
  "sendOffer_begin (Fin 12000) [] demo_env_agreed demo_store
     = Some (demo_pending_store,
             api_sendOffer ''0123456789abcdef0123456789abcdef'' ''tok-1'' (Fin 12000) [] ''en'')
   \<and> handleOpenChange False False demo_pending_store = (True, demo_pending_store)
   \<and> sendOffer_settle demo_env_agreed demo_pending_store = (demo_terminal_store, None)
   \<and> state demo_terminal_store = Some Agreed
   \<and> price_input_disabled demo_terminal_store
   \<and> length (messages demo_terminal_store) = 3
   \<and> snd (session_step (AcceptDeal demo_env_closed) (demo_ui\<lparr>ui_store := demo_terminal_store\<rparr>))
       = [api_sendOffer ''0123456789abcdef0123456789abcdef'' ''tok-1'' (Fin 11400)
            ''Walk-away deal accepted'' ''en'']
   \<and> map (\<lambda>m. (msg_id m, msg_status m))
         (messages (ui_store (fst (session_step (AcceptDeal demo_env_closed)
                                     (demo_ui\<lparr>ui_store := demo_terminal_store\<rparr>)))))
       = [(''s0'', Sent), (''b1'', Sent), (''s1'', Sent), (''b2'', Error)]
   \<and> state (ui_store (fst (session_step (AcceptDeal demo_env_again)
                               (demo_ui\<lparr>ui_store := demo_terminal_store\<rparr>))))
       = Some Responding
   \<and> currentPrice (ui_store (fst (session_step (AcceptDeal demo_env_again)
                               (demo_ui\<lparr>ui_store := demo_terminal_store\<rparr>))))
       = 12500"
proof -
  have st0: "sessionId demo_store = Some ''0123456789abcdef0123456789abcdef''"
    "sessionToken demo_store = Some ''tok-1''"
    by (simp_all add: demo_store_eq)
  have w: "walkAwayPrice demo_terminal_store = 11400"
    by (simp add: walkAwayPrice_def demo_terminal_store_eq round_def)
  have st: "sessionId demo_terminal_store = Some ''0123456789abcdef0123456789abcdef''"
    "sessionToken demo_terminal_store = Some ''tok-1''"
    "''0123456789abcdef0123456789abcdef'' \<noteq> []" "''tok-1'' \<noteq> []"
    by (simp_all add: demo_terminal_store_eq)
  have closed: "sendOffer (Fin 11400) ''Walk-away deal accepted'' demo_env_closed demo_terminal_store
     = (demo_terminal_store\<lparr>isLoading := False,
          messages := set_status (buyer_msg_id demo_env_closed) Error
            (messages demo_terminal_store
               @ [buyer_message (Fin 11400) ''Walk-away deal accepted'' demo_env_closed])\<rparr>,
        [api_sendOffer ''0123456789abcdef0123456789abcdef'' ''tok-1'' (Fin 11400)
           ''Walk-away deal accepted'' (language demo_terminal_store)],
        Some \<lparr>err_status = Some 410, err_message = ''session_closed''\<rparr>)"
    by (rule sendOffer_rejected [OF st]) (simp add: demo_env_closed_def)
  have again: "sendOffer (Fin 11400) ''Walk-away deal accepted'' demo_env_again demo_terminal_store
     = (applyResponse demo_counter_response False (seller_msg_id demo_env_again)
          (seller_now demo_env_again)
          (demo_terminal_store\<lparr>isLoading := True,
             messages := set_status (buyer_msg_id demo_env_again) Sent
               (messages demo_terminal_store
                  @ [buyer_message (Fin 11400) ''Walk-away deal accepted'' demo_env_again])\<rparr>),
        [api_sendOffer ''0123456789abcdef0123456789abcdef'' ''tok-1'' (Fin 11400)
           ''Walk-away deal accepted'' (language demo_terminal_store)], None)"
    by (rule sendOffer_resolved [OF st]) (simp add: demo_env_again_def)
  have b: "sendOffer_begin (Fin 12000) [] demo_env_agreed demo_store
     = Some (demo_store\<lparr>messages := messages demo_store
                           @ [buyer_message (Fin 12000) [] demo_env_agreed],
                         isLoading := True\<rparr>,
             api_sendOffer ''0123456789abcdef0123456789abcdef'' ''tok-1'' (Fin 12000) []
               (language demo_store))"
    using st0 by (simp add: sendOffer_begin_def falsy_def)
  have sn: "snd (sendOffer_settle demo_env_agreed demo_pending_store) = None"
    by (simp add: sendOffer_settle_def demo_env_agreed_def)
  have lang: "language demo_store = ''en''" by (simp add: demo_store_eq)
  have 1: "sendOffer_begin (Fin 12000) [] demo_env_agreed demo_store
     = Some (demo_pending_store,
             api_sendOffer ''0123456789abcdef0123456789abcdef'' ''tok-1'' (Fin 12000) [] ''en'')"
    by (simp add: b demo_pending_store_eq lang)
  have settled: "sendOffer_settle demo_env_agreed demo_pending_store = (demo_terminal_store, None)"
    by (simp add: prod_eq_iff sn demo_terminal_store_def)
  have 2: "handleOpenChange False False demo_pending_store = (True, demo_pending_store)"
    by (simp add: handleOpenChange_def isActive_def demo_pending_store_eq demo_store_eq)
  have 3: "state demo_terminal_store = Some Agreed \<and> price_input_disabled demo_terminal_store
     \<and> length (messages demo_terminal_store) = 3"
    by (simp add: demo_terminal_store_eq price_input_disabled_def pi_disabled_def isTerminal_def)
  have 4: "snd (session_step (AcceptDeal demo_env_closed) (demo_ui\<lparr>ui_store := demo_terminal_store\<rparr>))
       = [api_sendOffer ''0123456789abcdef0123456789abcdef'' ''tok-1'' (Fin 11400)
            ''Walk-away deal accepted'' ''en'']"
    by (simp add: demo_ui_def handleAcceptDeal_def w closed) (simp add: demo_terminal_store_eq)
  have 5: "map (\<lambda>m. (msg_id m, msg_status m))
         (messages (ui_store (fst (session_step (AcceptDeal demo_env_closed)
                                     (demo_ui\<lparr>ui_store := demo_terminal_store\<rparr>)))))
       = [(''s0'', Sent), (''b1'', Sent), (''s1'', Sent), (''b2'', Error)]"
    by (simp add: demo_ui_def handleAcceptDeal_def w closed)
       (simp add: demo_terminal_store_eq set_status_def buyer_message_def demo_env_closed_def)
  have 6: "state (ui_store (fst (session_step (AcceptDeal demo_env_again)
                               (demo_ui\<lparr>ui_store := demo_terminal_store\<rparr>))))
       = Some Responding
     \<and> currentPrice (ui_store (fst (session_step (AcceptDeal demo_env_again)
                               (demo_ui\<lparr>ui_store := demo_terminal_store\<rparr>))))
       = 12500"
    by (simp add: demo_ui_def handleAcceptDeal_def w again)
       (simp add: applyResponse_def demo_counter_response_def)
  from 1 settled 2 3 4 5 6 show ?thesis by simp
qed


section \<open>Languages\<close>

lemma selectable_languages_eq: "selectable_languages = [''en'', ''hi'', ''ta'', ''te'', ''mr'']"
  by (simp add: selectable_languages_def LANGUAGE_LABELS_def)

lemma setLanguage_round_trip:
  "window_defined b \<Longrightarrow> l \<noteq> [] \<Longrightarrow> getPersistedLanguage (fst (setLanguage l (b, s))) = l"
  by (simp add: setLanguage_def getPersistedLanguage_def)

text \<open>
  Claim C8. The languages the toggle offers are exactly \<open>en\<close>, \<open>hi\<close>, \<open>ta\<close>, \<open>te\<close> and
  \<open>mr\<close>. In a browser, \<open>setLanguage\<close> of any of them followed by
  \<open>getPersistedLanguage\<close> gives that language back, and the store holds it. When
  nothing is stored under the key, and when \<open>window\<close> is undefined, the persisted
  language is \<open>en\<close>; the store starts with the persisted language.
\<close>

theorem language_round_trip:
  "set selectable_languages = {''en'', ''hi'', ''ta'', ''te'', ''mr''}
   \<and> (\<forall>l \<in> set selectable_languages. window_defined b \<longrightarrow>
         getPersistedLanguage (fst (setLanguage l (b, s))) = l
         \<and> language (snd (setLanguage l (b, s))) = l)
   \<and> (localStorage b ''mol-bhav-lang'' = None \<longrightarrow> getPersistedLanguage b = ''en'')
   \<and> (\<not> window_defined b \<longrightarrow> getPersistedLanguage b = ''en'')
   \<and> language (initial_store b) = getPersistedLanguage b"
proof -
  have 1: "set selectable_languages = {''en'', ''hi'', ''ta'', ''te'', ''mr''}"
    by (simp add: selectable_languages_eq)
  have ne: "\<forall>l \<in> set selectable_languages. l \<noteq> []"
    by (simp add: selectable_languages_eq)
  have 2: "\<forall>l \<in> set selectable_languages. window_defined b \<longrightarrow>
         getPersistedLanguage (fst (setLanguage l (b, s))) = l
         \<and> language (snd (setLanguage l (b, s))) = l"
  proof (intro ballI impI conjI)
    fix l assume "l \<in> set selectable_languages" and w: "window_defined b"
    with ne have "l \<noteq> []" by blast
    with w show "getPersistedLanguage (fst (setLanguage l (b, s))) = l"
      by (rule setLanguage_round_trip)
    show "language (snd (setLanguage l (b, s))) = l" by (simp add: setLanguage_def)
  qed
  have 3: "localStorage b ''mol-bhav-lang'' = None \<longrightarrow> getPersistedLanguage b = ''en''"
    by (simp add: getPersistedLanguage_def)
  have 4: "\<not> window_defined b \<longrightarrow> getPersistedLanguage b = ''en''"
    by (simp add: getPersistedLanguage_def)
  have 5: "language (initial_store b) = getPersistedLanguage b"
    by (simp add: initial_store_def)
  from 1 2 3 4 5 show ?thesis by blast
qed

text \<open>Tamil is read back after it is set; an empty storage and a server both give \<open>en\<close>.\<close>

theorem language_round_trip_witness:
  "getPersistedLanguage (fst (setLanguage ''ta'' (demo_browser, demo_store))) = ''ta''
   \<and> getPersistedLanguage demo_browser = ''en''
   \<and> getPersistedLanguage (demo_browser\<lparr>window_defined := False\<rparr>) = ''en''"
proof -
  have m: "''ta'' \<in> set selectable_languages" by (simp add: selectable_languages_eq)
  have w: "window_defined demo_browser" by (simp add: demo_browser_def)
  have n: "localStorage demo_browser ''mol-bhav-lang'' = None" by (simp add: demo_browser_def)
  have f: "\<not> window_defined (demo_browser\<lparr>window_defined := False\<rparr>)" by simp
  from language_round_trip [of demo_browser demo_store] m w n
  have "getPersistedLanguage (fst (setLanguage ''ta'' (demo_browser, demo_store))) = ''ta''"
    and "getPersistedLanguage demo_browser = ''en''" by blast+
  moreover from language_round_trip [of "demo_browser\<lparr>window_defined := False\<rparr>" demo_store] f
  have "getPersistedLanguage (demo_browser\<lparr>window_defined := False\<rparr>) = ''en''" by blast
  ultimately show ?thesis by blast
qed

section \<open>The floor\<close>

lemma FairnessMeter_applied:
  "FairnessMeter a v (applyResponse res isStart i t s) =
     Meter \<lparr>shown_lower = a * v,
            shown_label = zone_label (activeZone (percentage a v (current_price res))),
            shown_upper = a,
            pointer_left = percentage a v (current_price res),
            shown_current = current_price res\<rparr>"
  by (simp add: FairnessMeter_def applyResponse_def Let_def visualFloor_def)

lemma meter_of_session_eq:
  "meter_of_session v sess msg meta isStart i t s =
     Meter \<lparr>shown_lower = ns_anchor_price sess * v,
            shown_label = zone_label (activeZone
                            (percentage (ns_anchor_price sess) v (ns_current_price sess))),
            shown_upper = ns_anchor_price sess,
            pointer_left = percentage (ns_anchor_price sess) v (ns_current_price sess),
            shown_current = ns_current_price sess\<rparr>"
  by (simp add: meter_of_session_def FairnessMeter_applied session_response_def)

text \<open>
  The response built from a session does not change when the session's floor
  price changes, and neither does the meter drawn after the response is applied. Two
  sessions that agree on the anchor price and on the current price give the same
  meter, whatever their floors, messages and the store before: its lower bound is
  the anchor times the floor percentage, its upper bound the anchor, and its pointer
  and zone are those of the percentage of the current price. On any two stores with
  the same current price, both with a state or both without, the component draws the
  same thing for the same anchor and floor percentage.
\<close>

lemma meter_independent_of_floor:
  "session_response (sess\<lparr>ns_floor_price := f\<rparr>) msg meta = session_response sess msg meta
   \<and> meter_of_session v (sess\<lparr>ns_floor_price := f\<rparr>) msg meta isStart i t s
       = meter_of_session v sess msg meta isStart i t s
   \<and> (ns_anchor_price sa = ns_anchor_price sb \<and> ns_current_price sa = ns_current_price sb \<longrightarrow>
        meter_of_session v sa msg meta isStart i t s
          = meter_of_session v sb msg' meta' isStart' i' t' s')
   \<and> meter_of_session v sess msg meta isStart i t s =
       Meter \<lparr>shown_lower = ns_anchor_price sess * v,
              shown_label = zone_label (activeZone
                              (percentage (ns_anchor_price sess) v (ns_current_price sess))),
              shown_upper = ns_anchor_price sess,
              pointer_left = percentage (ns_anchor_price sess) v (ns_current_price sess),
              shown_current = ns_current_price sess\<rparr>
   \<and> (currentPrice s1 = currentPrice s2 \<and> (state s1 = None \<longleftrightarrow> state s2 = None) \<longrightarrow>
        FairnessMeter a v s1 = FairnessMeter a v s2)"
proof -
  have 5: "currentPrice s1 = currentPrice s2 \<and> (state s1 = None \<longleftrightarrow> state s2 = None) \<longrightarrow>
        FairnessMeter a v s1 = FairnessMeter a v s2"
    by (cases "state s1"; cases "state s2") (simp_all add: FairnessMeter_def Let_def)
  have 1: "session_response (sess\<lparr>ns_floor_price := f\<rparr>) msg meta = session_response sess msg meta"
    by (simp add: session_response_def)
  from 1 5 show ?thesis by (simp add: meter_of_session_eq)
qed

text \<open>
  Floors of 9450 and 5000 under the same anchor and current price: one meter. The
  round and the chat of the store do not change what is drawn.
\<close>

lemma meter_independent_of_floor_example:
  "ns_floor_price demo_session \<noteq> ns_floor_price (demo_session\<lparr>ns_floor_price := 5000\<rparr>)
   \<and> meter_of_session visualFloorPercent_default demo_session ''Thoda aur'' [] False ''s1'' 2 demo_store
     = meter_of_session visualFloorPercent_default (demo_session\<lparr>ns_floor_price := 5000\<rparr>)
         ''Nahi'' [] False ''s2'' 3 demo_store
   \<and> FairnessMeter 12999 visualFloorPercent_default demo_store
     = FairnessMeter 12999 visualFloorPercent_default (demo_store\<lparr>round_no := 3, messages := []\<rparr>)"
proof -
  have h: "ns_anchor_price demo_session = ns_anchor_price (demo_session\<lparr>ns_floor_price := 5000\<rparr>)
     \<and> ns_current_price demo_session = ns_current_price (demo_session\<lparr>ns_floor_price := 5000\<rparr>)"
    by simp
  have d: "ns_floor_price demo_session \<noteq> ns_floor_price (demo_session\<lparr>ns_floor_price := 5000\<rparr>)"
    by (simp add: demo_session_def)
  have k: "currentPrice demo_store = currentPrice (demo_store\<lparr>round_no := 3, messages := []\<rparr>)
     \<and> (state demo_store = None \<longleftrightarrow> state (demo_store\<lparr>round_no := 3, messages := []\<rparr>) = None)"
    by simp
  from meter_independent_of_floor [where sa = demo_session
      and sb = "demo_session\<lparr>ns_floor_price := 5000\<rparr>"] h
  have "meter_of_session visualFloorPercent_default demo_session ''Thoda aur'' [] False ''s1'' 2 demo_store
     = meter_of_session visualFloorPercent_default (demo_session\<lparr>ns_floor_price := 5000\<rparr>)
         ''Nahi'' [] False ''s2'' 3 demo_store"
    by blast
  moreover have "currentPrice demo_store = currentPrice (demo_store\<lparr>round_no := 3, messages := []\<rparr>)
     \<and> (state demo_store = None \<longleftrightarrow> state (demo_store\<lparr>round_no := 3, messages := []\<rparr>) = None)
     \<longrightarrow> FairnessMeter 12999 visualFloorPercent_default demo_store
     = FairnessMeter 12999 visualFloorPercent_default (demo_store\<lparr>round_no := 3, messages := []\<rparr>)"
    by (rule meter_independent_of_floor [where ?s1.0 = demo_store
          and ?s2.0 = "demo_store\<lparr>round_no := 3, messages := []\<rparr>"
          and a = 12999 and v = visualFloorPercent_default,
          THEN conjunct2, THEN conjunct2, THEN conjunct2, THEN conjunct2])
  then have "FairnessMeter 12999 visualFloorPercent_default demo_store
     = FairnessMeter 12999 visualFloorPercent_default (demo_store\<lparr>round_no := 3, messages := []\<rparr>)"
    using k by (rule mp)
  ultimately show ?thesis using d by simp
qed

section \<open>What the pages send to the browser\<close>

lemma ProductDetailPage_floor:
  "product_floor (ProductDetailPage p) = \<lceil>p_cost_price p * (1 + p_min_margin p)\<rceil>"
  by (simp add: ProductDetailPage_def product_floor_def)

text \<open>
  Claim C1. The claim says that the floor price is never revealed to the buyer's
  client. The response and the meter do not carry it (lemma
  \<open>meter_independent_of_floor\<close>), but the product does: the detail page hands the whole
  fetched product to the client component \<open>ProductActions\<close>, and the home page hands the
  whole list to \<open>ProductGrid\<close>. For the example product the browser holds the cost
  price 9000 and the least margin 5%, from which the floor 9450 of the example session
  follows; a product with the same anchor and another cost has another floor, and the
  props the browser receives tell the two apart.
\<close>

theorem product_props_reveal_floor:
  "p_cost_price (ProductDetailPage demo_product) = 9000
   \<and> p_min_margin (ProductDetailPage demo_product) = 5 / 100
   \<and> product_floor (ProductDetailPage demo_product) = 9450
   \<and> ns_floor_price demo_session = 9450
   \<and> HomePage [demo_product] = Some [demo_product]
   \<and> p_anchor_price (demo_product\<lparr>p_cost_price := 5000\<rparr>) = p_anchor_price demo_product
   \<and> product_floor (demo_product\<lparr>p_cost_price := 5000\<rparr>) = 5250
   \<and> ProductDetailPage (demo_product\<lparr>p_cost_price := 5000\<rparr>) \<noteq> ProductDetailPage demo_product"
proof -
  have f: "product_floor (ProductDetailPage demo_product) = 9450"
    by (simp add: ProductDetailPage_floor demo_product_def)
  have g: "product_floor (demo_product\<lparr>p_cost_price := 5000\<rparr>) = 5250"
    by (simp add: product_floor_def demo_product_def)
  have n: "ProductDetailPage (demo_product\<lparr>p_cost_price := 5000\<rparr>) \<noteq> ProductDetailPage demo_product"
    by (simp add: ProductDetailPage_def demo_product_def)
  from f g n show ?thesis
    by (simp add: ProductDetailPage_def HomePage_def demo_session_def) (simp add: demo_product_def)
qed


section \<open>Submitting a price\<close>

lemma handleSubmit_rejects:
  "isNaN (parseFloat (remove_commas (priceStr p))) \<or> le_zero (parseFloat (remove_commas (priceStr p)))
     \<Longrightarrow> handleSubmit env p s = (p, s, [], [''Enter a valid price''])"
  by (simp add: handleSubmit_def Let_def)

lemma handleSubmit_rejects_iff:
  "(isNaN x \<or> le_zero x) \<longleftrightarrow> x = NaN \<or> x = NegInfinity \<or> (\<exists>r. x = Fin r \<and> r \<le> 0)"
  by (cases x) simp_all

lemma parseFloat_Infinity: "parseFloat (remove_commas ''Infinity'') = PosInfinity"
  by (simp add: remove_commas_def parseFloat_def parse_unsigned_def is_space_def)

text \<open>
  Claim C4. A price that parses to \<open>NaN\<close>, to a negative number, to zero or to
  \<open>-Infinity\<close> is rejected by \<open>handleSubmit\<close> with the toast \<open>Enter a valid price\<close>, and
  nothing is sent (lemma \<open>handleSubmit_rejects\<close>). The text \<open>Infinity\<close> parses to
  \<open>+Infinity\<close>, which is not finite and passes both tests: on the example session the
  submit button is enabled, \<open>sendOffer\<close> is called, the offer request is sent with
  that price, no toast is shown, and the buyer's message is in the chat.
\<close>

theorem handleSubmit_sends_infinity:
  "parseFloat (remove_commas ''Infinity'') = PosInfinity
   \<and> \<not> isFinite (parseFloat (remove_commas ''Infinity''))
   \<and> \<not> submit_button_disabled demo_store \<lparr>priceStr = ''Infinity'', pi_message = [], showMessage = False\<rparr>
   \<and> fst (snd (snd (handleSubmit demo_env_ok
             \<lparr>priceStr = ''Infinity'', pi_message = [], showMessage = False\<rparr> demo_store)))
       = [api_sendOffer ''0123456789abcdef0123456789abcdef'' ''tok-1'' PosInfinity [] ''en'']
   \<and> snd (snd (snd (handleSubmit demo_env_ok
             \<lparr>priceStr = ''Infinity'', pi_message = [], showMessage = False\<rparr> demo_store))) = []
   \<and> map msg_price (messages (fst (snd (handleSubmit demo_env_ok
             \<lparr>priceStr = ''Infinity'', pi_message = [], showMessage = False\<rparr> demo_store))))
       = [Fin 12999, PosInfinity, Fin 12500]"
  by (simp add: parseFloat_Infinity handleSubmit_def Let_def trim_def
        sendOffer_resolved [where sid = "''0123456789abcdef0123456789abcdef''" and tok = "''tok-1''"
           and res = demo_counter_response]
        demo_store_eq demo_env_ok_def submit_button_disabled_def pi_disabled_def isTerminal_def
        applyResponse_def set_status_def buyer_message_def demo_counter_response_def)

end
